theory Spec2Isabelle
  imports Main "HOL-Library.Multiset"
begin

section \<open>JavaScript values used by ComponentApiBuilder.ts\<close>

text \<open>
  Strings are lists of code units (\<^typ>\<open>string\<close>); the model covers the texts whose
  code units are below 256. An optional field (\<open>T | undefined\<close>) is an
  \<^typ>\<open>'a option\<close>; \<open>undefined\<close> is \<^term>\<open>None\<close>.
\<close>

definition startsWith :: "string \<Rightarrow> string \<Rightarrow> bool" where
  "startsWith s p = (take (length p) s = p)"

fun array_join :: "string \<Rightarrow> string list \<Rightarrow> string" where
  "array_join sep [] = []"
| "array_join sep [x] = x"
| "array_join sep (x # y # ys) = x @ sep @ array_join sep (y # ys)"

text \<open>\<open>String.prototype.includes\<close>, and an unanchored regular expression of literal text.\<close>

fun str_includes :: "string \<Rightarrow> string \<Rightarrow> bool" where
  "str_includes [] p = (p = [])"
| "str_includes (c # s) p = (startsWith (c # s) p \<or> str_includes s p)"

definition endsWith :: "string \<Rightarrow> string \<Rightarrow> bool" where
  "endsWith s p = (length p \<le> length s \<and> drop (length s - length p) s = p)"

abbreviation LF :: char where "LF \<equiv> CHR 0x0A"
abbreviation CR :: char where "CR \<equiv> CHR 0x0D"
abbreviation backslash :: char where "backslash \<equiv> CHR 0x5C"
abbreviation apostrophe :: char where "apostrophe \<equiv> CHR 0x27"

text \<open>
  White space (\<open>\s\<close>, \<open>trim\<close>) and line terminators (which \<open>.\<close> does not match), among
  the code units below 256.
\<close>

definition is_space :: "char \<Rightarrow> bool" where
  "is_space c = (c \<in> set [CHR 0x09, CHR 0x0A, CHR 0x0B, CHR 0x0C, CHR 0x0D, CHR 0x20, CHR 0xA0])"

definition is_line_terminator :: "char \<Rightarrow> bool" where
  "is_line_terminator c = (c = LF \<or> c = CR)"

definition trim :: "string \<Rightarrow> string" where
  "trim s = rev (dropWhile is_space (rev (dropWhile is_space s)))"

text \<open>\<open>Array.prototype.indexOf\<close>: the first index holding the value, or \<open>-1\<close>.\<close>

fun indexOf_from :: "int \<Rightarrow> 'a list \<Rightarrow> 'a \<Rightarrow> int" where
  "indexOf_from i [] v = -1"
| "indexOf_from i (x # xs) v = (if x = v then i else indexOf_from (i + 1) xs v)"

definition indexOf :: "'a list \<Rightarrow> 'a \<Rightarrow> int" where
  "indexOf xs v = indexOf_from 0 xs v"

text \<open>Truthiness of a \<open>boolean | undefined\<close> value.\<close>

fun truthy :: "bool option \<Rightarrow> bool" where
  "truthy (Some b) = b"
| "truthy None = False"

subsection \<open>Objects as ordered property lists\<close>

text \<open>
  A plain object is the list of its own string-keyed properties in the order
  \<open>Object.entries\<close> and \<open>JSON.stringify\<close> enumerate them: the keys that are array
  indices (canonical decimal numerals below \<open>2^32 - 1\<close>) first, in ascending numeric
  order, then all other keys in the order of their creation.
\<close>

type_synonym 'v js_object = "(string \<times> 'v) list"

definition is_digit :: "char \<Rightarrow> bool" where
  "is_digit c = ((48::nat) \<le> of_char c \<and> (of_char c :: nat) \<le> 57)"

definition digits_value :: "string \<Rightarrow> nat" where
  "digits_value k = foldl (\<lambda>n c. 10 * n + (of_char c - 48)) (0::nat) k"

definition is_array_index :: "string \<Rightarrow> bool" where
  "is_array_index k =
     (k \<noteq> [] \<and> list_all is_digit k \<and> (k = ''0'' \<or> take 1 k \<noteq> ''0'') \<and>
      digits_value k < 4294967295)"

fun insert_index :: "string \<Rightarrow> 'v \<Rightarrow> 'v js_object \<Rightarrow> 'v js_object" where
  "insert_index k v [] = [(k, v)]"
| "insert_index k v ((k', v') # ob) =
     (if is_array_index k' \<and> digits_value k' < digits_value k
      then (k', v') # insert_index k v ob
      else (k, v) # (k', v') # ob)"

fun assign_existing :: "string \<Rightarrow> 'v \<Rightarrow> 'v js_object \<Rightarrow> 'v js_object" where
  "assign_existing k v [] = []"
| "assign_existing k v ((k', v') # ob) =
     (if k' = k then (k, v) # ob else (k', v') # assign_existing k v ob)"

text \<open>\<open>ob[k] = v\<close>.\<close>

definition obj_set :: "string \<Rightarrow> 'v \<Rightarrow> 'v js_object \<Rightarrow> 'v js_object" where
  "obj_set k v ob =
     (if k \<in> set (map fst ob) then assign_existing k v ob
      else if is_array_index k then insert_index k v ob
      else ob @ [(k, v)])"

text \<open>\<open>delete ob[k]\<close>.\<close>

definition obj_delete :: "string \<Rightarrow> 'v js_object \<Rightarrow> 'v js_object" where
  "obj_delete k ob = filter (\<lambda>p. fst p \<noteq> k) ob"

text \<open>\<open>_.fromPairs\<close>: assigns the pairs from left to right to a fresh object.\<close>

definition fromPairs :: "(string \<times> 'v) list \<Rightarrow> 'v js_object" where
  "fromPairs ps = foldl (\<lambda>ob p. obj_set (fst p) (snd p) ob) [] ps"

definition entries :: "'v js_object \<Rightarrow> (string \<times> 'v) list" where
  "entries ob = ob"

subsection \<open>\<open>Array.prototype.sort\<close> with a comparison function\<close>

text \<open>
  The sort is stable; with a consistent comparison function its result is the stable
  sorted arrangement, which insertion from the right computes.
\<close>

fun insert_by :: "('a \<Rightarrow> 'a \<Rightarrow> int) \<Rightarrow> 'a \<Rightarrow> 'a list \<Rightarrow> 'a list" where
  "insert_by cmp x [] = [x]"
| "insert_by cmp x (y # ys) =
     (if cmp x y \<le> 0 then x # y # ys else y # insert_by cmp x ys)"

fun array_sort :: "('a \<Rightarrow> 'a \<Rightarrow> int) \<Rightarrow> 'a list \<Rightarrow> 'a list" where
  "array_sort cmp [] = []"
| "array_sort cmp (x # xs) = insert_by cmp x (array_sort cmp xs)"

text \<open>
  A consistent comparison function (ECMAScript, \<open>Array.prototype.sort\<close>): the three-way
  comparison of a total preorder. \<open>String.prototype.localeCompare\<close> is the host's
  collation, a parameter of the model; all that is used of it is that it is consistent.
\<close>

definition consistent :: "('a \<Rightarrow> 'a \<Rightarrow> int) \<Rightarrow> bool" where
  "consistent cmp =
     ((\<forall>a b. 0 < cmp a b \<longrightarrow> cmp b a \<le> 0) \<and>
      (\<forall>a b c. cmp a b \<le> 0 \<longrightarrow> cmp b c \<le> 0 \<longrightarrow> cmp a c \<le> 0))"

text \<open>A concrete comparison of strings: by code units, left to right.\<close>

fun codeUnitCompare :: "string \<Rightarrow> string \<Rightarrow> int" where
  "codeUnitCompare [] [] = 0"
| "codeUnitCompare [] (y # ys) = -1"
| "codeUnitCompare (x # xs) [] = 1"
| "codeUnitCompare (x # xs) (y # ys) =
     (if (of_char x :: nat) < of_char y then -1
      else if (of_char y :: nat) < of_char x then 1
      else codeUnitCompare xs ys)"

section \<open>The API record\<close>

record demo =
  demoPageTitle :: string
  demoPathname :: string

record inheritanceRef =
  inh_name :: string
  inh_apiPathname :: string

record componentClassDefinition =
  cls_key :: string
  cls_className :: string
  cls_description :: string
  cls_isGlobal :: bool

record slot =
  slot_name :: string
  slot_description :: string
  slot_default :: "string option"
  slot_class :: "string option"

text \<open>\<open>themeDefaultProps: boolean | undefined | null\<close>.\<close>

datatype tristate = Undefined | Null | Bool bool

datatype additionalPropsInfo = CssApi | Sx | SlotsApi | JoySize | JoyColor | JoyVariant

record propSignature =
  sig_type :: string
  sig_describedArgs :: "string list option"
  sig_returned :: "string option"

text \<open>One value of \<open>ReactApi['propsTable']\<close>.\<close>

record propsTableEntry =
  pte_default :: "string option"
  pte_required :: "bool option"
  pte_type_name :: "string option"
  pte_type_description :: "string option"
  pte_deprecated :: "bool option"
  pte_deprecationInfo :: "string option"
  pte_signature :: "propSignature option"
  pte_additionalInfo :: "additionalPropsInfo option"

text \<open>The docgen parser's descriptor of one prop, and of its type.\<close>

record propTypeDescriptor =
  pt_name :: string
  pt_raw :: "string option"

record propDescriptor =
  pd_type :: propTypeDescriptor
  pd_required :: bool
  pd_description :: "string option"
  pd_jsdocDefaultValue :: "string option"

text \<open>\<open>DescribeablePropDescriptor\<close>, the result of \<open>createDescribeableProp\<close>.\<close>

record describeableProp =
  dp_required :: bool
  dp_type :: propTypeDescriptor
  dp_defaultValue :: "string option"

text \<open>The result of \<open>getChained\<close> when it is not \<open>false\<close>.\<close>

record chained =
  ch_type :: propTypeDescriptor
  ch_required :: bool

text \<open>The result of \<open>generatePropDescription\<close>.\<close>

record propDescription =
  gpd_deprecated :: string
  gpd_jsDocText :: string
  gpd_signature :: "string option"
  gpd_signatureArgs :: "(string \<times> string) list option"
  gpd_signatureReturn :: "(string \<times> string) option"
  gpd_requiresRef :: bool

record propTranslation =
  tr_description :: string
  tr_requiresRef :: "bool option"
  tr_deprecated :: "string option"
  tr_typeDescriptions :: "string js_object option"

record classCondition =
  cc_description :: string
  cc_conditions :: "string option"
  cc_nodeName :: "string option"

record translationBundle =
  componentDescription :: string
  propDescriptions :: "propTranslation js_object"
  classDescriptions :: "classCondition js_object"
  slotDescriptions :: "string js_object option"

record reactApi =
  api_description :: string
  api_props :: "propDescriptor js_object"
  api_demos :: "demo list"
  api_EOL :: string
  api_filename :: string
  api_apiPathname :: string
  api_forwardsRefTo :: "string option"
  api_inheritance :: "inheritanceRef option"
  api_name :: string
  api_muiName :: string
  api_spread :: "bool option"
  api_themeDefaultProps :: tristate
  api_classes :: "componentClassDefinition list"
  api_slots :: "slot list"
  api_propsTable :: "propsTableEntry js_object"
  api_imports :: "string list"
  api_translations :: "translationBundle option"

subsection \<open>Errors\<close>

text \<open>A JavaScript error object: its \<open>name\<close> and its \<open>message\<close>.\<close>

datatype js_error = JsError string string

fun error_message :: "js_error \<Rightarrow> string" where
  "error_message (JsError n m) = m"

text \<open>\<open>Error.prototype.toString\<close>, as the template literal \<open>${error}\<close> calls it.\<close>

fun error_toString :: "js_error \<Rightarrow> string" where
  "error_toString (JsError n m) = (if n = [] then m else if m = [] then n else n @ '': '' @ m)"

text \<open>What a function of the builder throws, by the place that throws it.\<close>

datatype failure =
    DocgenError js_error
  | MissingDemoError js_error
  | AggregatedPropError js_error
  | NoAstError js_error
  | MultipleJsdocBlocksError js_error
  | AnnotationTargetNotFoundError js_error
  | FileSystemError js_error

subsection \<open>The inputs of a build\<close>

record readFileResult =
  rf_shouldSkip :: bool
  rf_spread :: "bool option"
  rf_EOL :: string
  rf_src :: string

text \<open>\<open>ComponentInfo\<close>; its methods are the values they return.\<close>

record componentInfo =
  ci_filename :: string
  ci_name :: string
  ci_muiName :: string
  ci_apiPathname :: string
  ci_apiPagesDirectory :: string
  ci_isSystemComponent :: bool
  ci_skipApiGeneration :: bool
  ci_readFile :: readFileResult
  ci_getDemos :: "demo list"
  ci_getInheritance :: "string option \<Rightarrow> inheritanceRef option"

record testInfo =
  ti_forwardsRefTo :: "string option"
  ti_spread :: "bool option"
  ti_themeDefaultProps :: tristate
  ti_inheritComponent :: "string option"

record projectSettings =
  translationLanguages :: "string list"

datatype typeScriptProject = TypeScriptProject string

text \<open>What the docgen parser returns: the description and the props of the component.\<close>

record docgenApi =
  dg_description :: string
  dg_props :: "propDescriptor js_object"

text \<open>
  The syntax tree that the finder of the factory lookup visits: the variable declarations
  in the order of the visit, each the initializers of its declarators. An expression has
  a callee (with a name, if it is an identifier) when it is a call, and an inner
  \<open>expression\<close> when it is a TypeScript wrapper.
\<close>

datatype ast_expr = AstExpr "string option option" "ast_expr option"

fun expr_callee :: "ast_expr \<Rightarrow> string option option" where
  "expr_callee (AstExpr callee inner) = callee"

fun expr_expression :: "ast_expr \<Rightarrow> ast_expr option" where
  "expr_expression (AstExpr callee inner) = inner"

type_synonym program_ast = "ast_expr option list list"

datatype handler = DefaultHandlers | MuiDefaultPropsHandler

text \<open>
  The type declarations as the annotation step reads them: the export declarations in the
  order of the traversal, with the node that a name they export is bound to.
\<close>

datatype comment_kind = CommentBlock | CommentLine

record comment =
  comment_type :: comment_kind
  comment_value :: string
  comment_start :: "int option"
  comment_end :: "int option"

record ast_node =
  leadingComments :: "comment list option"
  node_start :: "int option"

datatype default_declaration = IdentifierDeclaration ast_node | OtherDeclaration

datatype specifier = ExportSpecifier string ast_node | OtherSpecifier

datatype named_declaration =
    NoDeclaration "specifier list"
  | FunctionDeclaration "string option" ast_node
  | OtherNamedDeclaration

datatype export_node =
    ExportDefaultDeclaration ast_node default_declaration
  | ExportNamedDeclaration ast_node named_declaration

text \<open>The content of the API page, as it is serialized.\<close>

record pageContent =
  pc_props :: "propsTableEntry js_object"
  pc_name :: string
  pc_imports :: "string list"
  pc_slots :: "slot list option"
  pc_classes :: "componentClassDefinition list"
  pc_spread :: "bool option"
  pc_themeDefaultProps :: tristate
  pc_muiName :: string
  pc_forwardsRefTo :: "string option"
  pc_filename :: string
  pc_inheritance :: "(string \<times> string) option"
  pc_demos :: string
  pc_cssComponent :: bool

subsection \<open>The collaborators\<close>

text \<open>
  The functions imported from other modules and from the platform are parameters of the
  model. \<open>createDescribeableProp\<close> throws on a prop it cannot describe, \<open>docgenParse\<close>
  on a source it finds no component in. \<open>json_translations\<close> and \<open>json_page\<close> are
  \<open>JSON.stringify\<close>; \<open>pageModule\<close> is the text of the page module for a translations
  directory and a kebab-case name; \<open>remark_links\<close> is the markdown processor with the
  plugin that makes the links absolute; \<open>rootImportPath\<close> and
  \<open>subdirectoryImportPath\<close> are the two replacements on the GitHub path.
\<close>

record collaborators =
  createDescribeableProp :: "propDescriptor \<Rightarrow> string \<Rightarrow> js_error + describeableProp"
  generatePropDescription :: "describeableProp \<Rightarrow> string \<Rightarrow> propDescription"
  generatePropTypeDescription :: "propTypeDescriptor \<Rightarrow> string option"
  getChained :: "propTypeDescriptor \<Rightarrow> chained option"
  renderMarkdown :: "string \<Rightarrow> string"
  docgenParse ::
    "string \<Rightarrow> (program_ast \<Rightarrow> ast_expr option) option \<Rightarrow> handler list \<Rightarrow> string \<Rightarrow>
     js_error + docgenApi"
  parseTest :: "string \<Rightarrow> testInfo"
  parseSlotsAndClasses ::
    "typeScriptProject \<Rightarrow> string \<Rightarrow> string \<Rightarrow> slot list \<times> componentClassDefinition list"
  kebabCase :: "string \<Rightarrow> string"
  localeCompare :: "string \<Rightarrow> string \<Rightarrow> int"
  prettier_format :: "string \<Rightarrow> string \<Rightarrow> string"
  json_translations :: "translationBundle option \<Rightarrow> string"
  json_page :: "pageContent \<Rightarrow> string"
  pageModule :: "string \<Rightarrow> string \<Rightarrow> string"
  toGitHubPath :: "string \<Rightarrow> string"
  rootImportPath :: "string \<Rightarrow> string"
  subdirectoryImportPath :: "string \<Rightarrow> string"
  babel_parse :: "string \<Rightarrow> string \<Rightarrow> export_node list option"
  remark_links :: "string \<Rightarrow> string \<Rightarrow> string"
  path_name :: "string \<Rightarrow> string"
  cwd :: string

section \<open>generateApiPage: the page content\<close>

definition cssComponents :: "string list" where
  "cssComponents = [''Box'', ''Grid'', ''Typography'', ''Stack'']"

text \<open>The comparison function of the props sort: required DESC, name ASC.\<close>

definition compareProps ::
  "(string \<Rightarrow> string \<Rightarrow> int) \<Rightarrow> string \<times> propsTableEntry \<Rightarrow> string \<times> propsTableEntry \<Rightarrow> int" where
  "compareProps collate a b =
     (if (truthy (pte_required (snd a)) \<and> truthy (pte_required (snd b))) \<or>
         (\<not> truthy (pte_required (snd a)) \<and> \<not> truthy (pte_required (snd b)))
      then collate (fst a) (fst b)
      else if truthy (pte_required (snd a)) then -1
      else 1)"

definition pageContent_props ::
  "(string \<Rightarrow> string \<Rightarrow> int) \<Rightarrow> propsTableEntry js_object \<Rightarrow> propsTableEntry js_object" where
  "pageContent_props collate propsTable =
     fromPairs (array_sort (compareProps collate) (entries propsTable))"

definition pageContent_cssComponent :: "string \<Rightarrow> bool" where
  "pageContent_cssComponent name = (indexOf cssComponents name \<ge> 0)"

section \<open>attachPropsTable\<close>

text \<open>\<open>apiPathname.replace(/\\/g, '/')\<close>.\<close>

definition normalizePathname :: "string \<Rightarrow> string" where
  "normalizePathname p = map (\<lambda>c. if c = backslash then CHR ''/'' else c) p"

text \<open>
  \<open>/\.isRequired/.test(raw)\<close>: the expression is not anchored, and an
  \<open>undefined\<close> argument is tested as the text \<open>undefined\<close>.
\<close>

definition test_isRequired :: "string option \<Rightarrow> bool" where
  "test_isRequired raw =
     str_includes (case raw of None \<Rightarrow> ''undefined'' | Some r \<Rightarrow> r) ''.isRequired''"

definition requiredProp :: "describeableProp \<Rightarrow> chained option \<Rightarrow> bool" where
  "requiredProp prop chainedPropType =
     (dp_required prop \<or> test_isRequired (pt_raw (dp_type prop)) \<or>
      (case chainedPropType of None \<Rightarrow> False | Some ch \<Rightarrow> ch_required ch))"

text \<open>
  \<open>description.match(/@deprecated(\s+(?<info>.*))?/)\<close>: \<^term>\<open>None\<close> when nothing
  matches, else the group \<open>info\<close> (\<^term>\<open>None\<close> when the optional group took no part).
\<close>

definition deprecated_info :: "string \<Rightarrow> string option" where
  "deprecated_info rest =
     (case rest of
        [] \<Rightarrow> None
      | c # _ \<Rightarrow>
          if is_space c
          then Some (takeWhile (\<lambda>c. \<not> is_line_terminator c) (dropWhile is_space rest))
          else None)"

fun match_deprecated :: "string \<Rightarrow> string option option" where
  "match_deprecated [] = None"
| "match_deprecated (c # s) =
     (if startsWith (c # s) ''@deprecated''
      then Some (deprecated_info (drop 11 (c # s)))
      else match_deprecated s)"

definition additionalPropsInfo_of :: "string \<Rightarrow> string \<Rightarrow> additionalPropsInfo option" where
  "additionalPropsInfo_of propName normalizedApiPathname =
     (if propName = ''classes'' then Some CssApi
      else if propName = ''sx'' then Some Sx
      else if propName = ''slots'' \<and> \<not> startsWith normalizedApiPathname ''/material-ui''
        then Some SlotsApi
      else if startsWith normalizedApiPathname ''/joy-ui''
        then (if propName = ''size'' then Some JoySize
              else if propName = ''color'' then Some JoyColor
              else if propName = ''variant'' then Some JoyVariant
              else None)
      else None)"

text \<open>The pair that the mapping function returns for a prop that could be described.\<close>

definition propsTablePair ::
  "collaborators \<Rightarrow> reactApi \<Rightarrow> string \<Rightarrow> propDescriptor \<Rightarrow> describeableProp \<Rightarrow>
   string \<times> propsTableEntry" where
  "propsTablePair c reactApi propName propDescriptor prop =
     (let defaultValue = pd_jsdocDefaultValue propDescriptor;
          d = generatePropDescription c prop propName;
          propTypeDescription = generatePropTypeDescription c (pd_type propDescriptor);
          chainedPropType = getChained c (dp_type prop);
          deprecation =
            match_deprecated (case pd_description propDescriptor of None \<Rightarrow> [] | Some t \<Rightarrow> t);
          info = (case deprecation of Some (Some i) \<Rightarrow> i | _ \<Rightarrow> []);
          deprecationInfo = trim (renderMarkdown c info);
          signature =
            (case gpd_signature d of
               None \<Rightarrow> None
             | Some signatureType \<Rightarrow>
                 Some \<lparr>sig_type = signatureType,
                       sig_describedArgs = map_option (map fst) (gpd_signatureArgs d),
                       sig_returned = map_option fst (gpd_signatureReturn d)\<rparr>)
      in (propName,
          \<lparr>pte_default = defaultValue,
           pte_required = (if requiredProp prop chainedPropType then Some True else None),
           pte_type_name = Some (pt_name (pd_type propDescriptor)),
           pte_type_description =
             (if propTypeDescription \<noteq> Some (pt_name (pd_type propDescriptor))
              then propTypeDescription else None),
           pte_deprecated = (if deprecation \<noteq> None then Some True else None),
           pte_deprecationInfo = (if deprecationInfo = [] then None else Some deprecationInfo),
           pte_signature = signature,
           pte_additionalInfo =
             additionalPropsInfo_of propName (normalizePathname (api_apiPathname reactApi))\<rparr>))"

text \<open>
  One step of the \<open>map\<close> over \<open>Object.entries(reactApi.props)\<close>: the error pushed to
  \<open>propErrors\<close>, or the pair returned.
\<close>

definition describeProp ::
  "collaborators \<Rightarrow> reactApi \<Rightarrow> string \<times> propDescriptor \<Rightarrow>
   (string \<times> js_error) + (string \<times> propsTableEntry)" where
  "describeProp c reactApi p =
     (case createDescribeableProp c (snd p) (fst p) of
        Inl error \<Rightarrow> Inl (''['' @ api_name reactApi @ ''] `'' @ fst p @ ''`'', error)
      | Inr prop \<Rightarrow> Inr (propsTablePair c reactApi (fst p) (snd p) prop))"

definition propErrors_message :: "(string \<times> js_error) list \<Rightarrow> string" where
  "propErrors_message propErrors =
     ''There were errors creating prop descriptions:'' @ [LF] @
     array_join [LF] (map (\<lambda>pe. ''  - '' @ fst pe @ '': '' @ error_toString (snd pe)) propErrors)"

text \<open>
  The function mutates \<open>reactApi\<close>; the model returns what is thrown (if anything) and
  the record after the call. The pairs of the props that failed are \<open>[]\<close> in the source
  and give the key \<open>undefined\<close>, deleted afterwards; the table is only assigned when no
  prop failed, so the pairs of the model are those of the props described.
\<close>

definition attachPropsTable :: "collaborators \<Rightarrow> reactApi \<Rightarrow> failure option \<times> reactApi" where
  "attachPropsTable c reactApi =
     (let results = map (describeProp c reactApi) (entries (api_props reactApi));
          propErrors = concat (map (\<lambda>r. case r of Inl pe \<Rightarrow> [pe] | Inr _ \<Rightarrow> []) results);
          componentProps =
            fromPairs (concat (map (\<lambda>r. case r of Inl _ \<Rightarrow> [] | Inr pair \<Rightarrow> [pair]) results))
      in if length propErrors > 0
         then (Some (AggregatedPropError (JsError ''Error'' (propErrors_message propErrors))),
               reactApi)
         else (None, reactApi\<lparr>api_propsTable := obj_delete ''undefined'' componentProps\<rparr>))"

section \<open>extractClassConditions\<close>

text \<open>
  The regular expression
  \<open>/((Styles|State class|Class name) applied to )(.*?)(( if | unless | when |, ){1}(.*))?\./\<close>
  as the backtracking matcher runs it: alternatives in their order, \<open>(.*?)\<close> as short
  as possible, the optional group tried before its absence, \<open>(.*)\<close> as long as possible.
\<close>

definition style_keywords :: "string list" where
  "style_keywords = [''Styles'', ''State class'', ''Class name'']"

definition separators :: "string list" where
  "separators = ['' if '', '' unless '', '' when '', '', '']"

text \<open>\<open>(.*)\.\<close>: the group and the text after the full stop.\<close>

fun match_greedy_dot :: "string \<Rightarrow> (string \<times> string) option" where
  "match_greedy_dot [] = None"
| "match_greedy_dot (c # r) =
     (if is_line_terminator c then None
      else (case match_greedy_dot r of
              Some (g, after) \<Rightarrow> Some (c # g, after)
            | None \<Rightarrow> if c = CHR ''.'' then Some ([], r) else None))"

text \<open>\<open>( if | unless | when |, ){1}(.*)\.\<close>: groups 5 and 6 and the text after.\<close>

fun match_condition :: "string list \<Rightarrow> string \<Rightarrow> (string \<times> string \<times> string) option" where
  "match_condition [] r = None"
| "match_condition (sep # seps) r =
     (if startsWith r sep
      then (case match_greedy_dot (drop (length sep) r) of
              Some (g6, after) \<Rightarrow> Some (sep, g6, after)
            | None \<Rightarrow> match_condition seps r)
      else match_condition seps r)"

text \<open>\<open>(( if | unless | when |, ){1}(.*))?\.\<close>.\<close>

definition match_tail :: "string \<Rightarrow> (string option \<times> string option \<times> string) option" where
  "match_tail r =
     (case match_condition separators r of
        Some (g5, g6, after) \<Rightarrow> Some (Some g5, Some g6, after)
      | None \<Rightarrow>
          (case r of
             [] \<Rightarrow> None
           | c # after \<Rightarrow> if c = CHR ''.'' then Some (None, None, after) else None))"

text \<open>\<open>(.*?)\<close> and what follows it; \<open>acc\<close> is the text group 3 has taken so far.\<close>

fun match_target ::
  "string \<Rightarrow> string \<Rightarrow> (string \<times> string option \<times> string option \<times> string) option" where
  "match_target acc [] =
     (case match_tail [] of
        Some (g5, g6, after) \<Rightarrow> Some (acc, g5, g6, after)
      | None \<Rightarrow> None)"
| "match_target acc (c # r) =
     (case match_tail (c # r) of
        Some (g5, g6, after) \<Rightarrow> Some (acc, g5, g6, after)
      | None \<Rightarrow> if is_line_terminator c then None else match_target (acc @ [c]) r)"

record stylesMatch =
  m_before :: string
  m_1 :: string
  m_3 :: string
  m_5 :: "string option"
  m_6 :: "string option"
  m_after :: string

text \<open>The whole expression at the start of the text.\<close>

fun match_at :: "string list \<Rightarrow> string \<Rightarrow> string \<Rightarrow> stylesMatch option" where
  "match_at [] pre s = None"
| "match_at (kw # kws) pre s =
     (if startsWith s (kw @ '' applied to '')
      then (case match_target [] (drop (length (kw @ '' applied to '')) s) of
              Some (g3, g5, g6, after) \<Rightarrow>
                Some \<lparr>m_before = pre, m_1 = kw @ '' applied to '', m_3 = g3, m_5 = g5,
                      m_6 = g6, m_after = after\<rparr>
            | None \<Rightarrow> match_at kws pre s)
      else match_at kws pre s)"

text \<open>The first match, from the left.\<close>

fun stylesRegex_from :: "string \<Rightarrow> string \<Rightarrow> stylesMatch option" where
  "stylesRegex_from pre [] = match_at style_keywords pre []"
| "stylesRegex_from pre (c # s) =
     (case match_at style_keywords pre (c # s) of
        Some m \<Rightarrow> Some m
      | None \<Rightarrow> stylesRegex_from (pre @ [c]) s)"

definition stylesRegex :: "string \<Rightarrow> stylesMatch option" where
  "stylesRegex description = stylesRegex_from [] description"

text \<open>
  \<open>replace(/`(.*?)`/g, '<code>$1</code>')\<close>. The first argument is the text taken since
  an opening backtick, if one is open.
\<close>

fun code_spans :: "string option \<Rightarrow> string \<Rightarrow> string" where
  "code_spans None [] = []"
| "code_spans (Some buf) [] = CHR ''`'' # buf"
| "code_spans None (c # s) =
     (if c = CHR ''`'' then code_spans (Some []) s else c # code_spans None s)"
| "code_spans (Some buf) (c # s) =
     (if c = CHR ''`'' then ''<code>'' @ buf @ ''</code>'' @ code_spans None s
      else if is_line_terminator c then CHR ''`'' # buf @ c # code_spans None s
      else code_spans (Some (buf @ [c])) s)"

text \<open>The value stored for one class description.\<close>

definition classCondition_of :: "collaborators \<Rightarrow> string \<Rightarrow> classCondition" where
  "classCondition_of c description =
     (case stylesRegex description of
        None \<Rightarrow>
          \<lparr>cc_description = renderMarkdown c description, cc_conditions = None,
           cc_nodeName = None\<rparr>
      | Some conditions \<Rightarrow>
          if m_6 conditions \<noteq> None \<and> m_6 conditions \<noteq> Some []
          then \<lparr>cc_description =
                   renderMarkdown c
                     (m_before conditions @ m_1 conditions @ ''{{nodeName}}'' @
                      (case m_5 conditions of None \<Rightarrow> [] | Some g5 \<Rightarrow> g5) @
                      ''{{conditions}}.'' @ m_after conditions),
                 cc_conditions =
                   Some (renderMarkdown c
                     (code_spans None (case m_6 conditions of None \<Rightarrow> [] | Some g6 \<Rightarrow> g6))),
                 cc_nodeName = Some (renderMarkdown c (m_3 conditions))\<rparr>
          else if m_3 conditions \<noteq> [] \<and> m_3 conditions \<noteq> ''the root element''
          then \<lparr>cc_description =
                   renderMarkdown c
                     (m_before conditions @ m_1 conditions @ ''{{nodeName}}'' @
                      (case m_5 conditions of None \<Rightarrow> [] | Some g5 \<Rightarrow> g5) @
                      ''.'' @ m_after conditions),
                 cc_conditions = None,
                 cc_nodeName = Some (renderMarkdown c (m_3 conditions))\<rparr>
          else \<lparr>cc_description = renderMarkdown c description, cc_conditions = None,
                cc_nodeName = None\<rparr>)"

text \<open>
  \<open>Object.entries(descriptions).forEach\<close>: every entry with a non-empty class name is
  assigned to the result.
\<close>

definition extractClassConditions ::
  "collaborators \<Rightarrow> string js_object \<Rightarrow> classCondition js_object" where
  "extractClassConditions c descriptions =
     fromPairs (map (\<lambda>p. (fst p, classCondition_of c (snd p)))
                  (filter (\<lambda>p. fst p \<noteq> []) (entries descriptions)))"


section \<open>attachTranslations\<close>

definition propTranslation_of :: "collaborators \<Rightarrow> describeableProp \<Rightarrow> string \<Rightarrow> propTranslation" where
  "propTranslation_of c prop propName =
     (let d = generatePropDescription c prop propName;
          typeDescriptions =
            fromPairs
              (map (\<lambda>a. (fst a, renderMarkdown c (snd a)))
                 ((case gpd_signatureArgs d of None \<Rightarrow> [] | Some args \<Rightarrow> args) @
                  (case gpd_signatureReturn d of None \<Rightarrow> [] | Some r \<Rightarrow> [r])))
      in \<lparr>tr_description = renderMarkdown c (gpd_jsDocText d),
          tr_requiresRef = (if gpd_requiresRef d then Some True else None),
          tr_deprecated =
            (if renderMarkdown c (gpd_deprecated d) = [] then None
             else Some (renderMarkdown c (gpd_deprecated d))),
          tr_typeDescriptions =
            (if length typeDescriptions > 0 then Some typeDescriptions else None)\<rparr>)"

definition attachTranslations :: "collaborators \<Rightarrow> reactApi \<Rightarrow> reactApi" where
  "attachTranslations c reactApi =
     (let described =
            concat (map (\<lambda>p. case createDescribeableProp c (snd p) (fst p) of
                               Inl error \<Rightarrow> []
                             | Inr prop \<Rightarrow> [(fst p, propTranslation_of c prop (fst p))])
                      (entries (api_props reactApi)));
          classDescriptions =
            fromPairs (map (\<lambda>d. (cls_key d, cls_description d)) (api_classes reactApi))
      in reactApi\<lparr>api_translations :=
           Some \<lparr>componentDescription = api_description reactApi,
                 propDescriptions = fromPairs described,
                 classDescriptions = extractClassConditions c classDescriptions,
                 slotDescriptions =
                   (if length (api_slots reactApi) > 0
                    then Some (fromPairs (map (\<lambda>sl. (slot_name sl, slot_description sl))
                                            (api_slots reactApi)))
                    else None)\<rparr>\<rparr>)"

section \<open>Files\<close>

text \<open>
  The file system is the content of its files, by path. Directories are not modelled:
  \<open>mkdirSync\<close> with \<open>recursive\<close> changes no file. \<open>path.join\<close> and \<open>path.resolve\<close>
  put a plain name under an absolute directory.
\<close>

type_synonym files = "string \<Rightarrow> string option"

definition path_join :: "string \<Rightarrow> string \<Rightarrow> string" where
  "path_join directory name = directory @ ''/'' @ name"

text \<open>The \<open>flag\<close> option of a write: the default, or \<open>wx\<close>.\<close>

datatype write_flag = FlagW | FlagWX

text \<open>
  Modelled from the spec: \<open>writePrettifiedFile\<close> (module \<open>buildApiUtils\<close>) is not among
  the sources. It formats the data and writes the file; with the flag \<open>wx\<close> the write is
  an exclusive creation, which fails when the file exists and changes nothing.
\<close>

definition writePrettifiedFile ::
  "collaborators \<Rightarrow> string \<Rightarrow> string \<Rightarrow> write_flag \<Rightarrow> files \<Rightarrow> failure + files" where
  "writePrettifiedFile c filename data flag fs =
     (if flag = FlagWX \<and> fs filename \<noteq> None
      then Inl (FileSystemError (JsError ''Error'' (''EEXIST: file already exists, open '' @ [apostrophe] @ filename @ [apostrophe])))
      else Inr (fs(filename \<mapsto> prettier_format c filename data)))"

section \<open>generateApiTranslations\<close>

text \<open>\<open>resolveApiDocsTranslationsComponentLanguagePath\<close>.\<close>

definition translationsPath :: "collaborators \<Rightarrow> string \<Rightarrow> string \<Rightarrow> string \<Rightarrow> string" where
  "translationsPath c outputDirectory componentName language =
     path_join (path_join outputDirectory (kebabCase c componentName))
       (kebabCase c componentName @ (if language = ''en'' then [] else ''-'' @ language) @
        ''.json'')"

text \<open>One step of \<open>languages.forEach\<close>: the error of the write is caught and dropped.\<close>

definition seedTranslation ::
  "collaborators \<Rightarrow> string \<Rightarrow> string \<Rightarrow> string \<Rightarrow> files \<Rightarrow> string \<Rightarrow> files" where
  "seedTranslation c outputDirectory componentName data fs language =
     (if language \<noteq> ''en''
      then (case writePrettifiedFile c (translationsPath c outputDirectory componentName language)
                   data FlagWX fs of
              Inl error \<Rightarrow> fs
            | Inr fs' \<Rightarrow> fs')
      else fs)"

definition generateApiTranslations ::
  "collaborators \<Rightarrow> string \<Rightarrow> reactApi \<Rightarrow> string list \<Rightarrow> files \<Rightarrow> failure + files" where
  "generateApiTranslations c outputDirectory reactApi languages fs =
     (let componentName = api_name reactApi;
          data = json_translations c (api_translations reactApi)
      in case writePrettifiedFile c (translationsPath c outputDirectory componentName ''en'')
                data FlagW fs of
           Inl error \<Rightarrow> Inl error
         | Inr fs1 \<Rightarrow>
             Inr (foldl (seedTranslation c outputDirectory componentName data) fs1 languages))"

section \<open>generateApiPage\<close>

abbreviation dquote :: char where "dquote \<equiv> CHR 0x22"

text \<open>\<open>String.prototype.replace\<close> with a text pattern: the first occurrence.\<close>

fun replace_first :: "string \<Rightarrow> string \<Rightarrow> string \<Rightarrow> string" where
  "replace_first [] pat rep = (if pat = [] then rep else [])"
| "replace_first (ch # s) pat rep =
     (if startsWith (ch # s) pat then rep @ drop (length pat) (ch # s)
      else ch # replace_first s pat rep)"

text \<open>\<open>replace(/\r?\n/g, EOL)\<close>.\<close>

fun replace_newlines :: "string \<Rightarrow> string \<Rightarrow> string" where
  "replace_newlines [] eol = []"
| "replace_newlines [ch] eol = (if ch = LF then eol else [ch])"
| "replace_newlines (ch # ch' # s) eol =
     (if ch = CR \<and> ch' = LF then eol @ replace_newlines s eol
      else if ch = LF then eol @ replace_newlines (ch' # s) eol
      else ch # replace_newlines (ch' # s) eol)"

definition pageContent_of :: "collaborators \<Rightarrow> reactApi \<Rightarrow> pageContent" where
  "pageContent_of c reactApi =
     \<lparr>pc_props = pageContent_props (localeCompare c) (api_propsTable reactApi),
      pc_name = api_name reactApi,
      pc_imports = api_imports reactApi,
      pc_slots = (if length (api_slots reactApi) > 0 then Some (api_slots reactApi) else None),
      pc_classes = api_classes reactApi,
      pc_spread = api_spread reactApi,
      pc_themeDefaultProps = api_themeDefaultProps reactApi,
      pc_muiName =
        (if startsWith (normalizePathname (api_apiPathname reactApi)) ''/joy-ui''
         then replace_first (api_muiName reactApi) ''Mui'' ''Joy''
         else api_muiName reactApi),
      pc_forwardsRefTo = api_forwardsRefTo reactApi,
      pc_filename = toGitHubPath c (api_filename reactApi),
      pc_inheritance =
        map_option (\<lambda>i. (inh_name i, inh_apiPathname i)) (api_inheritance reactApi),
      pc_demos =
        ''<ul>'' @
        array_join [LF]
          (map (\<lambda>item. ''<li><a href='' @ [dquote] @ demoPathname item @ [dquote] @ ''>'' @
                        demoPageTitle item @ ''</a></li>'')
             (api_demos reactApi)) @
        ''</ul>'',
      pc_cssComponent = pageContent_cssComponent (api_name reactApi)\<rparr>"

definition generateApiPage ::
  "collaborators \<Rightarrow> string \<Rightarrow> string \<Rightarrow> reactApi \<Rightarrow> bool \<Rightarrow> files \<Rightarrow> failure + files" where
  "generateApiPage c apiPagesDirectory translationPagesDirectory reactApi onlyJsonFile fs =
     (case writePrettifiedFile c
             (path_join apiPagesDirectory (kebabCase c (api_name reactApi) @ ''.json''))
             (json_page c (pageContent_of c reactApi)) FlagW fs of
        Inl error \<Rightarrow> Inl error
      | Inr fs1 \<Rightarrow>
          if \<not> onlyJsonFile
          then writePrettifiedFile c
                 (path_join apiPagesDirectory (kebabCase c (api_name reactApi) @ ''.js''))
                 (replace_newlines
                    (pageModule c translationPagesDirectory (kebabCase c (api_name reactApi)))
                    (api_EOL reactApi))
                 FlagW fs1
          else Inr fs1)"

section \<open>annotateComponentDefinition\<close>

text \<open>The decimal numeral of a number, as a template literal prints it.\<close>

function string_of_nat :: "nat \<Rightarrow> string" where
  "string_of_nat n =
     (if n < 10 then [char_of (48 + n)]
      else string_of_nat (n div 10) @ [char_of (48 + n mod 10)])"
  by pat_completeness auto
termination
  by (relation "measure id") auto

declare string_of_nat.simps [simp del]

text \<open>\<open>String.prototype.slice\<close>: a negative index counts from the end.\<close>

definition slice_index :: "nat \<Rightarrow> int \<Rightarrow> nat" where
  "slice_index len i = (if i < 0 then nat (max (int len + i) 0) else min (nat i) len)"

definition js_slice :: "string \<Rightarrow> int \<Rightarrow> int option \<Rightarrow> string" where
  "js_slice s start end =
     (let from = slice_index (length s) start;
          to = (case end of None \<Rightarrow> length s | Some e \<Rightarrow> slice_index (length s) e)
      in take (to - from) (drop from s))"

text \<open>\<open>split('\n')\<close>.\<close>

fun split_lines :: "string \<Rightarrow> string list" where
  "split_lines [] = [[]]"
| "split_lines (ch # s) =
     (if ch = LF then [] # split_lines s
      else (case split_lines s of
              line # lines \<Rightarrow> (ch # line) # lines
            | [] \<Rightarrow> [[ch]]))"

text \<open>\<open>api.filename.replace(/\.js$/, '.d.ts')\<close>.\<close>

definition typesFilename_of :: "string \<Rightarrow> string" where
  "typesFilename_of filename =
     (if endsWith filename ''.js'' then take (length filename - 3) filename @ ''.d.ts''
      else filename)"

definition comment_kind_name :: "comment_kind \<Rightarrow> string" where
  "comment_kind_name k = (case k of CommentBlock \<Rightarrow> ''CommentBlock'' | CommentLine \<Rightarrow> ''CommentLine'')"

definition multipleBlocks_message :: "comment list \<Rightarrow> string" where
  "multipleBlocks_message leadingCommentBlocks =
     ''Should only have a single leading jsdoc block but got '' @
     string_of_nat (length leadingCommentBlocks) @ '':'' @ [LF] @
     array_join [LF]
       (map (\<lambda>p. ''#'' @ string_of_nat (fst p) @ '' ('' @ comment_kind_name (comment_type (snd p)) @
                   ''): '' @ comment_value (snd p))
          (zip [0..<length leadingCommentBlocks] leadingCommentBlocks))"

text \<open>
  The end of both visitors: where the comment block of the node is, or else the place
  before the node. The position is \<open>start\<close> and \<open>end\<close> (\<open>null\<close> at first).
\<close>

definition locate_jsdoc :: "ast_node \<Rightarrow> int \<times> int option \<Rightarrow> failure + (int \<times> int option)" where
  "locate_jsdoc node pos =
     (let leadingCommentBlocks =
            map_option (filter (\<lambda>cm. comment_type cm = CommentBlock)) (leadingComments node);
          jsdocBlock = (case leadingCommentBlocks of Some (b # _) \<Rightarrow> Some b | _ \<Rightarrow> None);
          before_node =
            (case node_start node of Some n \<Rightarrow> (n - 1, Some (n - 1)) | None \<Rightarrow> pos)
      in if (case leadingCommentBlocks of Some blocks \<Rightarrow> length blocks > 1 | None \<Rightarrow> False)
         then Inl (MultipleJsdocBlocksError (JsError ''Error''
                (multipleBlocks_message (case leadingCommentBlocks of Some blocks \<Rightarrow> blocks | None \<Rightarrow> []))))
         else Inr (case jsdocBlock of
                     Some b \<Rightarrow>
                       (case (comment_start b, comment_end b) of
                          (Some st, Some en) \<Rightarrow> (st, Some en)
                        | _ \<Rightarrow> before_node)
                   | None \<Rightarrow> before_node))"

definition visit_export ::
  "string \<Rightarrow> string \<Rightarrow> export_node \<Rightarrow> int \<times> int option \<Rightarrow> failure + (int \<times> int option)" where
  "visit_export filename fileName n pos =
     (case n of
        ExportDefaultDeclaration self declaration \<Rightarrow>
          if str_includes filename ''mui-base'' then Inr pos
          else locate_jsdoc
                 (case declaration of IdentifierDeclaration bound \<Rightarrow> bound | OtherDeclaration \<Rightarrow> self)
                 pos
      | ExportNamedDeclaration self declaration \<Rightarrow>
          if \<not> str_includes filename ''mui-base'' then Inr pos
          else (case declaration of
                  NoDeclaration specifiers \<Rightarrow>
                    locate_jsdoc
                      (foldl (\<lambda>node sp. case sp of
                                          ExportSpecifier local bound \<Rightarrow>
                                            if local = fileName then bound else node
                                        | OtherSpecifier \<Rightarrow> node)
                         self specifiers)
                      pos
                | FunctionDeclaration ident fn \<Rightarrow>
                    locate_jsdoc (if ident = Some fileName then fn else self) pos
                | OtherNamedDeclaration \<Rightarrow> Inr pos))"

fun traverse :: "string \<Rightarrow> string \<Rightarrow> export_node list \<Rightarrow> int \<times> int option \<Rightarrow> failure + (int \<times> int option)" where
  "traverse filename fileName [] pos = Inr pos"
| "traverse filename fileName (n # ns) pos =
     (case visit_export filename fileName n pos of
        Inl error \<Rightarrow> Inl error
      | Inr pos' \<Rightarrow> traverse filename fileName ns pos')"

definition HOST :: string where
  "HOST = ''https://mui.com''"

definition absolute_url :: "string \<Rightarrow> string" where
  "absolute_url pathname = (if startsWith pathname ''http'' then pathname else HOST @ pathname)"

text \<open>\<open>computeApiDescription\<close>.\<close>

definition computeApiDescription :: "collaborators \<Rightarrow> string \<Rightarrow> string \<Rightarrow> string" where
  "computeApiDescription c description host = trim (remark_links c host description)"

text \<open>The lines of the comment: the description, then the demos and the API links.\<close>

definition markdownLines :: "collaborators \<Rightarrow> reactApi \<Rightarrow> string list" where
  "markdownLines c api =
     (let lines = split_lines (computeApiDescription c (api_description api) HOST);
          lines = (if last lines \<noteq> [] then lines @ [[]] else lines)
      in lines @
         [''Demos:'', []] @
         map (\<lambda>demo. ''- ['' @ demoPageTitle demo @ '']('' @ absolute_url (demoPathname demo) @ '')'')
           (api_demos api) @
         [[]] @
         [''API:'', [],
          ''- ['' @ api_name api @ '' API]('' @ absolute_url (api_apiPathname api) @ '')''] @
         (case api_inheritance api of
            None \<Rightarrow> []
          | Some inheritance \<Rightarrow>
              [''- inherits ['' @ inh_name inheritance @ '' API]('' @
               absolute_url (inh_apiPathname inheritance) @ '')'']))"

definition jsdoc_of :: "string list \<Rightarrow> string" where
  "jsdoc_of lines =
     ''/**'' @ [LF] @
     array_join [LF] (map (\<lambda>line. if length line > 0 then '' * '' @ line else '' *'') lines) @
     [LF] @ '' */''"

definition annotateComponentDefinition :: "collaborators \<Rightarrow> reactApi \<Rightarrow> files \<Rightarrow> failure + files" where
  "annotateComponentDefinition c api fs =
     (let typesFilename = typesFilename_of (api_filename api);
          fileName = path_name c (api_filename api)
      in case fs typesFilename of
           None \<Rightarrow>
             Inl (FileSystemError (JsError ''Error''
                    (''ENOENT: no such file or directory, open '' @ [apostrophe] @ typesFilename @
                     [apostrophe])))
         | Some typesSource \<Rightarrow>
             (case babel_parse c typesFilename typesSource of
                None \<Rightarrow> Inl (NoAstError (JsError ''Error'' ''No AST returned from babel.''))
              | Some typesAST \<Rightarrow>
                  (case traverse (api_filename api) fileName typesAST (0, None) of
                     Inl error \<Rightarrow> Inl error
                   | Inr (start, end) \<Rightarrow>
                       if end = None \<or> start = 0
                       then Inl (AnnotationTargetNotFoundError (JsError ''TypeError''
                              (api_filename api @ '': Don'' @ [apostrophe] @
                               ''t know where to insert the jsdoc block. Probably no default export or named export matching the file name was found.'')))
                       else Inr (fs(typesFilename \<mapsto>
                              js_slice typesSource 0 (Some start) @
                              jsdoc_of (markdownLines c api) @
                              js_slice typesSource (case end of Some e \<Rightarrow> e | None \<Rightarrow> 0) None)))))"

section \<open>generateComponentApi\<close>

definition getComponentImports :: "collaborators \<Rightarrow> string \<Rightarrow> string \<Rightarrow> string list" where
  "getComponentImports c name filename =
     (let githubPath = toGitHubPath c filename;
          namedImportName =
            (if str_includes githubPath ''Unstable_'' then ''Unstable_'' @ name @ '' as '' @ name
             else name);
          useNamedImports = (rootImportPath c githubPath = ''@mui/base'');
          subpathImport =
            (if useNamedImports
             then ''import { '' @ namedImportName @ '' } from '' @ [apostrophe] @
                  subdirectoryImportPath c githubPath @ [apostrophe] @ '';''
             else ''import '' @ name @ '' from '' @ [apostrophe] @
                  subdirectoryImportPath c githubPath @ [apostrophe] @ '';'');
          rootImport =
            ''import { '' @ namedImportName @ '' } from '' @ [apostrophe] @
            rootImportPath c githubPath @ [apostrophe] @ '';''
      in [subpathImport, rootImport])"

text \<open>
  The finder of the factory lookup: of the initializers of all the declarators visited,
  the last whose expression is a call of \<open>create<ComponentName>\<close>.
\<close>

definition factoryFinder :: "string \<Rightarrow> program_ast \<Rightarrow> ast_expr option" where
  "factoryFinder componentName ast =
     foldl (\<lambda>node definition.
              case definition of
                None \<Rightarrow> node
              | Some d \<Rightarrow>
                  (let expression = (case expr_expression d of Some e \<Rightarrow> e | None \<Rightarrow> d)
                   in case expr_callee expression of
                        None \<Rightarrow> node
                      | Some definitionName \<Rightarrow>
                          if definitionName = Some (''create'' @ componentName)
                          then Some expression else node))
       None (concat ast)"

text \<open>
  The docgen parse of the source. Next to the result stands which detections were
  called, in their order.
\<close>

datatype detection = FactoryLookup | DefaultDetection

definition parseReactApi ::
  "collaborators \<Rightarrow> componentInfo \<Rightarrow> string \<Rightarrow> (js_error + docgenApi) \<times> detection list" where
  "parseReactApi c componentInfo src =
     (if ci_isSystemComponent componentInfo
      then (case docgenParse c src (Some (factoryFinder (ci_name componentInfo)))
                   [DefaultHandlers] (ci_filename componentInfo) of
              Inr reactApi \<Rightarrow> (Inr reactApi, [FactoryLookup])
            | Inl error \<Rightarrow>
                if error_message error = ''No suitable component definition found.''
                then (docgenParse c src None [DefaultHandlers, MuiDefaultPropsHandler]
                        (ci_filename componentInfo),
                      [FactoryLookup, DefaultDetection])
                else (Inl error, [FactoryLookup]))
      else (docgenParse c src None [DefaultHandlers, MuiDefaultPropsHandler]
              (ci_filename componentInfo),
            [DefaultDetection]))"

text \<open>
  \<open>description.match(/(Demos|API):\r?\n\r?\n/)\<close> and the slice up to the index of the
  match, trimmed.
\<close>

fun eat_CR :: "string \<Rightarrow> string" where
  "eat_CR [] = []"
| "eat_CR (ch # s) = (if ch = CR then s else ch # s)"

definition eat_newline :: "string \<Rightarrow> string option" where
  "eat_newline s = (case eat_CR s of [] \<Rightarrow> None | ch # r \<Rightarrow> if ch = LF then Some r else None)"

definition two_newlines :: "string \<Rightarrow> bool" where
  "two_newlines s = (case eat_newline s of None \<Rightarrow> False | Some r \<Rightarrow> eat_newline r \<noteq> None)"

definition trailer_at :: "string \<Rightarrow> bool" where
  "trailer_at s =
     ((startsWith s ''Demos:'' \<and> two_newlines (drop 6 s)) \<or>
      (startsWith s ''API:'' \<and> two_newlines (drop 4 s)))"

fun trailer_index :: "nat \<Rightarrow> string \<Rightarrow> nat option" where
  "trailer_index i [] = None"
| "trailer_index i (ch # s) =
     (if trailer_at (ch # s) then Some i else trailer_index (Suc i) s)"

definition stripTrailer :: "string \<Rightarrow> string" where
  "stripTrailer description =
     (case trailer_index 0 description of
        None \<Rightarrow> description
      | Some index \<Rightarrow> trim (take index description))"

definition demosError :: "string \<Rightarrow> js_error" where
  "demosError name =
     JsError ''Error''
       (''Unable to find demos. '' @ [LF] @
        ''Be sure to include `components: '' @ name @ ''` in the markdown pages where the `'' @
        name @ ''` component is relevant. '' @
        ''Every public component should have a demo. '')"

text \<open>The record after the assignments that precede the check of the demos.\<close>

definition describedComponent :: "collaborators \<Rightarrow> componentInfo \<Rightarrow> docgenApi \<Rightarrow> reactApi" where
  "describedComponent c componentInfo parsed =
     \<lparr>api_description = stripTrailer (dg_description parsed),
      api_props = dg_props parsed,
      api_demos = ci_getDemos componentInfo,
      api_EOL = rf_EOL (ci_readFile componentInfo),
      api_filename = ci_filename componentInfo,
      api_apiPathname = ci_apiPathname componentInfo,
      api_forwardsRefTo = None,
      api_inheritance = None,
      api_name = ci_name componentInfo,
      api_muiName = ci_muiName componentInfo,
      api_spread = None,
      api_themeDefaultProps = Undefined,
      api_classes = [],
      api_slots = [],
      api_propsTable = [],
      api_imports = getComponentImports c (ci_name componentInfo) (ci_filename componentInfo),
      api_translations = None\<rparr>"

text \<open>The assignments from the test file and from the slots and classes.\<close>

definition withTestInfo ::
  "collaborators \<Rightarrow> componentInfo \<Rightarrow> typeScriptProject \<Rightarrow> reactApi \<Rightarrow> reactApi" where
  "withTestInfo c componentInfo project reactApi =
     (let testInfo = parseTest c (ci_filename componentInfo);
          sc = parseSlotsAndClasses c project (api_name reactApi) (api_muiName reactApi)
      in reactApi
           \<lparr>api_forwardsRefTo := ti_forwardsRefTo testInfo,
            api_spread :=
              (case ti_spread testInfo of
                 Some b \<Rightarrow> Some b
               | None \<Rightarrow> rf_spread (ci_readFile componentInfo)),
            api_themeDefaultProps := ti_themeDefaultProps testInfo,
            api_inheritance := ci_getInheritance componentInfo (ti_inheritComponent testInfo),
            api_slots := fst sc,
            api_classes := snd sc\<rparr>)"

definition translationPagesDirectory_of :: "reactApi \<Rightarrow> string" where
  "translationPagesDirectory_of reactApi =
     (if startsWith (normalizePathname (api_apiPathname reactApi)) ''/joy-ui'' \<and>
         str_includes (normalizePathname (api_filename reactApi)) ''mui-joy/src''
      then ''docs/translations/api-docs-joy''
      else if startsWith (normalizePathname (api_apiPathname reactApi)) ''/base'' \<and>
              str_includes (normalizePathname (api_filename reactApi)) ''mui-base/src''
      then ''docs/translations/api-docs-base''
      else ''docs/translations/api-docs'')"

text \<open>The three steps that write files, when the API generation is not skipped.\<close>

definition emitArtifacts ::
  "collaborators \<Rightarrow> componentInfo \<Rightarrow> projectSettings \<Rightarrow> reactApi \<Rightarrow> files \<Rightarrow> failure option \<times> files" where
  "emitArtifacts c componentInfo projectSettings reactApi fs =
     (case generateApiTranslations c
             (path_join (cwd c) (translationPagesDirectory_of reactApi)) reactApi
             (translationLanguages projectSettings) fs of
        Inl error \<Rightarrow> (Some error, fs)
      | Inr fs1 \<Rightarrow>
          (case generateApiPage c (ci_apiPagesDirectory componentInfo)
                  (translationPagesDirectory_of reactApi) reactApi
                  (startsWith (normalizePathname (api_apiPathname reactApi)) ''/base'') fs1 of
             Inl error \<Rightarrow> (Some error, fs1)
           | Inr fs2 \<Rightarrow>
               (case annotateComponentDefinition c reactApi fs2 of
                  Inl error \<Rightarrow> (Some error, fs2)
                | Inr fs3 \<Rightarrow> (None, fs3))))"

text \<open>
  The result is what the function throws or returns (\<open>null\<close> for a component that is
  skipped), and the files after the call.
\<close>

definition generateComponentApi ::
  "collaborators \<Rightarrow> componentInfo \<Rightarrow> typeScriptProject \<Rightarrow> projectSettings \<Rightarrow> files \<Rightarrow>
   (failure + reactApi option) \<times> files" where
  "generateComponentApi c componentInfo project projectSettings fs =
     (if rf_shouldSkip (ci_readFile componentInfo) then (Inr None, fs)
      else
        (case fst (parseReactApi c componentInfo (rf_src (ci_readFile componentInfo))) of
           Inl error \<Rightarrow> (Inl (DocgenError error), fs)
         | Inr parsed \<Rightarrow>
             (let reactApi = describedComponent c componentInfo parsed
              in if length (api_demos reactApi) = 0
                 then (Inl (MissingDemoError (demosError (api_name reactApi))), fs)
                 else
                   (case attachPropsTable c (withTestInfo c componentInfo project reactApi) of
                      (Some error, _) \<Rightarrow> (Inl error, fs)
                    | (None, withProps) \<Rightarrow>
                        (let complete = attachTranslations c withProps
                         in if \<not> ci_skipApiGeneration componentInfo
                            then (case emitArtifacts c componentInfo projectSettings complete fs of
                                    (Some error, fs') \<Rightarrow> (Inl error, fs')
                                  | (None, fs') \<Rightarrow> (Inr (Some complete), fs'))
                            else (Inr (Some complete), fs))))))"

text \<open>
  The description that the docgen parser reads back from the comment which the annotation
  wrote: the lines of the comment without their prefix, joined and trimmed.
\<close>

definition annotated_description :: "collaborators \<Rightarrow> reactApi \<Rightarrow> string" where
  "annotated_description c api = trim (array_join [LF] (markdownLines c api))"

text \<open>A text that \<open>trim\<close> leaves as it is.\<close>

definition trimmed :: "string \<Rightarrow> bool" where
  "trimmed s = (s = [] \<or> (\<not> is_space (hd s) \<and> \<not> is_space (last s)))"

text \<open>The props for which \<open>createDescribeableProp\<close> throws, in the order of the props.\<close>

definition failingProps :: "collaborators \<Rightarrow> reactApi \<Rightarrow> (string \<times> propDescriptor) list" where
  "failingProps c reactApi =
     filter (\<lambda>p. isl (createDescribeableProp c (snd p) (fst p))) (entries (api_props reactApi))"

text \<open>
  The required flag in the words of the specification: (1) the explicit flag of the
  normalized descriptor, (2) the raw type signature ends in the marker \<open>isRequired\<close>,
  (3) the chained type marked it required.
\<close>

definition spec_required_rules :: "describeableProp \<Rightarrow> chained option \<Rightarrow> bool" where
  "spec_required_rules prop chainedPropType =
     (dp_required prop \<or>
      (case pt_raw (dp_type prop) of None \<Rightarrow> False | Some raw \<Rightarrow> endsWith raw ''isRequired'') \<or>
      (case chainedPropType of None \<Rightarrow> False | Some ch \<Rightarrow> ch_required ch))"

section \<open>Example inputs\<close>

text \<open>
  Collaborators for the examples: a prop whose type is named \<open>unknown\<close> cannot be
  described; a type is rendered by its name; a raw type of the form
  \<open>chainPropTypes(...)\<close> is chained and required; markdown renders as itself; the
  parser fails on the source \<open>syntax error\<close>, throws the error of the missing
  definition when the finder it is given returns nothing on the tree of the source, and
  else returns the source as the description.
\<close>

text \<open>
  The tree of a source for the examples: a source that holds \<open>createFoo(\<close> declares,
  after a declarator without initializer and a call of \<open>styled\<close>, a variable whose
  initializer is a TypeScript wrapper of a call of \<open>createFoo\<close>; any other source
  declares the call of \<open>styled\<close> only.
\<close>

definition example_tree :: "string \<Rightarrow> program_ast" where
  "example_tree src =
     (if str_includes src ''createFoo(''
      then [[None, Some (AstExpr (Some (Some ''styled'')) None)],
            [Some (AstExpr None (Some (AstExpr (Some (Some ''createFoo'')) None)))]]
      else [[Some (AstExpr (Some (Some ''styled'')) None)]])"

definition example_collaborators :: collaborators where
  "example_collaborators =
     \<lparr>createDescribeableProp =
        (\<lambda>pd propName.
           if pt_name (pd_type pd) = ''unknown''
           then Inl (JsError ''Error'' ''unsupported prop type'')
           else Inr \<lparr>dp_required = pd_required pd, dp_type = pd_type pd, dp_defaultValue = None\<rparr>),
      generatePropDescription =
        (\<lambda>prop propName.
           \<lparr>gpd_deprecated = [], gpd_jsDocText = [], gpd_signature = None,
            gpd_signatureArgs = None, gpd_signatureReturn = None, gpd_requiresRef = False\<rparr>),
      generatePropTypeDescription = (\<lambda>t. Some (pt_name t)),
      getChained =
        (\<lambda>t. case pt_raw t of
               None \<Rightarrow> None
             | Some raw \<Rightarrow>
                 if startsWith raw ''chainPropTypes(''
                 then Some \<lparr>ch_type = \<lparr>pt_name = ''number'', pt_raw = None\<rparr>, ch_required = True\<rparr>
                 else None),
      renderMarkdown = (\<lambda>text. text),
      docgenParse =
        (\<lambda>src finder handlers filename.
           if src = ''syntax error'' then Inl (JsError ''SyntaxError'' ''Unexpected token'')
           else (case finder of
                   None \<Rightarrow> Inr \<lparr>dg_description = src, dg_props = []\<rparr>
                 | Some finder_fn \<Rightarrow>
                     (case finder_fn (example_tree src) of
                        None \<Rightarrow> Inl (JsError ''Error'' ''No suitable component definition found.'')
                      | Some node \<Rightarrow> Inr \<lparr>dg_description = src, dg_props = []\<rparr>))),
      parseTest =
        (\<lambda>filename. \<lparr>ti_forwardsRefTo = None, ti_spread = None,
                     ti_themeDefaultProps = Undefined, ti_inheritComponent = None\<rparr>),
      parseSlotsAndClasses = (\<lambda>project componentName muiName. ([], [])),
      kebabCase = (\<lambda>name. name),
      localeCompare = codeUnitCompare,
      prettier_format = (\<lambda>filename data. data),
      json_translations = (\<lambda>bundle. ''translations''),
      json_page = (\<lambda>content. ''page''),
      pageModule = (\<lambda>directory name. ''module''),
      toGitHubPath = (\<lambda>filepath. filepath),
      rootImportPath = (\<lambda>githubPath. ''@mui/material''),
      subdirectoryImportPath = (\<lambda>githubPath. ''@mui/material/Foo''),
      babel_parse = (\<lambda>filename source. None),
      remark_links = (\<lambda>host markdown. markdown),
      path_name = (\<lambda>filename. filename),
      cwd = ''/repo''\<rparr>"

definition example_prop :: "string \<Rightarrow> string option \<Rightarrow> propDescriptor" where
  "example_prop typeName raw =
     \<lparr>pd_type = \<lparr>pt_name = typeName, pt_raw = raw\<rparr>, pd_required = False,
      pd_description = None, pd_jsdocDefaultValue = None\<rparr>"

definition example_api :: "string \<Rightarrow> propDescriptor js_object \<Rightarrow> reactApi" where
  "example_api name props =
     \<lparr>api_description = [], api_props = props, api_demos = [], api_EOL = [LF],
      api_filename = [], api_apiPathname = [], api_forwardsRefTo = None,
      api_inheritance = None, api_name = name, api_muiName = [], api_spread = None,
      api_themeDefaultProps = Undefined, api_classes = [], api_slots = [],
      api_propsTable = [], api_imports = [], api_translations = None\<rparr>"

definition example_component :: "bool \<Rightarrow> demo list \<Rightarrow> string \<Rightarrow> componentInfo" where
  "example_component system demos src =
     \<lparr>ci_filename = ''/repo/packages/mui-material/src/Foo/Foo.js'', ci_name = ''Foo'',
      ci_muiName = ''MuiFoo'', ci_apiPathname = ''/material-ui/api/foo/'',
      ci_apiPagesDirectory = ''/repo/docs/pages/material-ui/api'',
      ci_isSystemComponent = system, ci_skipApiGeneration = False,
      ci_readFile = \<lparr>rf_shouldSkip = False, rf_spread = None, rf_EOL = [LF], rf_src = src\<rparr>,
      ci_getDemos = demos, ci_getInheritance = (\<lambda>name. None)\<rparr>"

text \<open>A props table entry that sets only \<open>required\<close>, for examples.\<close>

definition entry_with_required :: "bool option \<Rightarrow> propsTableEntry" where
  "entry_with_required r =
     \<lparr>pte_default = None, pte_required = r, pte_type_name = Some ''string'',
      pte_type_description = None, pte_deprecated = None, pte_deprecationInfo = None,
      pte_signature = None, pte_additionalInfo = None\<rparr>"

section \<open>Properties\<close>

lemma indexOf_from_nonneg: "0 \<le> i \<Longrightarrow> (0 \<le> indexOf_from i xs v) = (v \<in> set xs)"
  by (induction xs arbitrary: i) auto

lemma cssComponent_names:
  "pageContent_cssComponent name =
     (name = ''Box'' \<or> name = ''Grid'' \<or> name = ''Typography'' \<or> name = ''Stack'')"
  unfolding pageContent_cssComponent_def indexOf_def
  by (subst indexOf_from_nonneg) (auto simp: cssComponents_def)

text \<open>The JSON file of the page holds the page content.\<close>

lemma generateApiPage_json:
  "\<exists>fs'. generateApiPage c apiPagesDirectory translationPagesDirectory reactApi onlyJsonFile fs =
           Inr fs' \<and>
         fs' (path_join apiPagesDirectory (kebabCase c (api_name reactApi) @ ''.json'')) =
           Some (prettier_format c
                   (path_join apiPagesDirectory (kebabCase c (api_name reactApi) @ ''.json''))
                   (json_page c (pageContent_of c reactApi)))"
  by (simp add: generateApiPage_def writePrettifiedFile_def path_join_def)

text \<open>
  C10. The \<open>cssComponent\<close> field of the page content is true if and only if the
  component's name is one of exactly Box, Grid, Typography, Stack.
\<close>

theorem cssComponent_iff:
  "pc_cssComponent (pageContent_of c reactApi) =
     (api_name reactApi = ''Box'' \<or> api_name reactApi = ''Grid'' \<or>
      api_name reactApi = ''Typography'' \<or> api_name reactApi = ''Stack'')"
  by (simp add: pageContent_of_def cssComponent_names)

subsection \<open>The order of the props\<close>

lemma foldl_obj_set_append:
  "distinct (map fst (acc @ ps)) \<Longrightarrow> \<forall>k \<in> set (map fst ps). \<not> is_array_index k \<Longrightarrow>
   foldl (\<lambda>ob p. obj_set (fst p) (snd p) ob) acc ps = acc @ ps"
proof (induction ps arbitrary: acc)
  case Nil
  then show ?case by simp
next
  case (Cons p ps)
  have fresh: "fst p \<notin> set (map fst acc)" using Cons.prems(1) by auto
  have step: "obj_set (fst p) (snd p) acc = acc @ [p]"
    using fresh Cons.prems(2) by (simp add: obj_set_def)
  have "distinct (map fst ((acc @ [p]) @ ps))" using Cons.prems(1) by simp
  moreover have "\<forall>k \<in> set (map fst ps). \<not> is_array_index k" using Cons.prems(2) by simp
  ultimately have "foldl (\<lambda>ob p. obj_set (fst p) (snd p) ob) (acc @ [p]) ps = (acc @ [p]) @ ps"
    by (rule Cons.IH)
  then show ?case using step by simp
qed

lemma fromPairs_plain_keys:
  "distinct (map fst ps) \<Longrightarrow> \<forall>k \<in> set (map fst ps). \<not> is_array_index k \<Longrightarrow> fromPairs ps = ps"
  unfolding fromPairs_def using foldl_obj_set_append [of "[]" ps] by simp

lemma mset_insert_by: "mset (insert_by cmp x xs) = add_mset x (mset xs)"
  by (induction xs) auto

lemma mset_array_sort: "mset (array_sort cmp xs) = mset xs"
  by (induction xs) (auto simp: mset_insert_by)

lemma set_insert_by: "set (insert_by cmp x xs) = insert x (set xs)"
  by (induction xs) auto

lemma sorted_insert_by:
  assumes "consistent cmp" "sorted_wrt (\<lambda>a b. cmp a b \<le> 0) xs"
  shows "sorted_wrt (\<lambda>a b. cmp a b \<le> 0) (insert_by cmp x xs)"
  using assms(2)
proof (induction xs)
  case Nil
  then show ?case by simp
next
  case (Cons y ys)
  show ?case
  proof (cases "cmp x y \<le> 0")
    case True
    have "\<forall>z \<in> set ys. cmp x z \<le> 0"
      using True Cons.prems assms(1) unfolding consistent_def by (metis sorted_wrt.simps(2))
    then show ?thesis using True Cons.prems by simp
  next
    case False
    then have "cmp y x \<le> 0" using assms(1) unfolding consistent_def by (metis not_le)
    then show ?thesis using False Cons by (auto simp: set_insert_by)
  qed
qed

lemma sorted_array_sort:
  "consistent cmp \<Longrightarrow> sorted_wrt (\<lambda>a b. cmp a b \<le> 0) (array_sort cmp xs)"
  by (induction xs) (auto intro: sorted_insert_by)

lemma compareProps_le:
  "(compareProps lc a b \<le> 0) =
     (if truthy (pte_required (snd a)) = truthy (pte_required (snd b))
      then lc (fst a) (fst b) \<le> 0 else truthy (pte_required (snd a)))"
  by (auto simp: compareProps_def)

lemma consistent_compareProps:
  assumes "consistent lc"
  shows "consistent (compareProps lc)"
proof -
  have anti: "\<And>a b. 0 < lc a b \<Longrightarrow> lc b a \<le> 0"
    using assms unfolding consistent_def by blast
  have trans: "\<And>a b c. lc a b \<le> 0 \<Longrightarrow> lc b c \<le> 0 \<Longrightarrow> lc a c \<le> 0"
    using assms unfolding consistent_def by blast
  have 1: "compareProps lc b a \<le> 0" if "0 < compareProps lc a b" for a b
  proof (cases "truthy (pte_required (snd a)) = truthy (pte_required (snd b))")
    case True
    then have "0 < lc (fst a) (fst b)" using that by (simp add: compareProps_def)
    then have "lc (fst b) (fst a) \<le> 0" by (rule anti)
    then show ?thesis using True by (simp add: compareProps_le)
  next
    case False
    then show ?thesis using that by (auto simp: compareProps_def split: if_splits)
  qed
  have 2: "compareProps lc a c \<le> 0"
    if ab: "compareProps lc a b \<le> 0" and bc: "compareProps lc b c \<le> 0" for a b c
  proof (cases "truthy (pte_required (snd a)) = truthy (pte_required (snd b))")
    case eq_ab: True
    show ?thesis
    proof (cases "truthy (pte_required (snd b)) = truthy (pte_required (snd c))")
      case True
      have "lc (fst a) (fst b) \<le> 0" using ab eq_ab by (simp add: compareProps_le)
      moreover have "lc (fst b) (fst c) \<le> 0" using bc True by (simp add: compareProps_le)
      ultimately have "lc (fst a) (fst c) \<le> 0" by (rule trans)
      then show ?thesis using eq_ab True by (simp add: compareProps_le)
    next
      case False
      then show ?thesis using bc eq_ab by (simp add: compareProps_le)
    qed
  next
    case ne_ab: False
    then have ra: "truthy (pte_required (snd a))" "\<not> truthy (pte_required (snd b))"
      using ab by (simp_all add: compareProps_le)
    show ?thesis
    proof (cases "truthy (pte_required (snd b)) = truthy (pte_required (snd c))")
      case True
      then show ?thesis using ra by (simp add: compareProps_le)
    next
      case False
      then show ?thesis using bc ra by (simp add: compareProps_le)
    qed
  qed
  show ?thesis unfolding consistent_def using 1 2 by blast
qed

lemma cuc_Cons_le:
  "(codeUnitCompare (x # xs) (y # ys) \<le> 0) =
     ((of_char x :: nat) < of_char y \<or> ((of_char x :: nat) = of_char y \<and> codeUnitCompare xs ys \<le> 0))"
  by auto

lemma cuc_Cons_gt:
  "(0 < codeUnitCompare (x # xs) (y # ys)) =
     ((of_char y :: nat) < of_char x \<or> ((of_char x :: nat) = of_char y \<and> 0 < codeUnitCompare xs ys))"
  by auto

lemma cuc_antisym: "0 < codeUnitCompare a b \<Longrightarrow> codeUnitCompare b a \<le> 0"
proof (induction a arbitrary: b)
  case Nil
  then show ?case by (cases b) simp_all
next
  case (Cons x xs)
  note IH = Cons.IH and prems = Cons.prems
  show ?case
  proof (cases b)
    case Nil
    then show ?thesis by simp
  next
    case b: (Cons y ys)
    have "(of_char y :: nat) < of_char x \<or> ((of_char x :: nat) = of_char y \<and> 0 < codeUnitCompare xs ys)"
      using prems unfolding b cuc_Cons_gt .
    then have "(of_char y :: nat) < of_char x \<or> ((of_char y :: nat) = of_char x \<and> codeUnitCompare ys xs \<le> 0)"
      using IH [of ys] by auto
    then show ?thesis unfolding b cuc_Cons_le .
  qed
qed

lemma cuc_trans:
  "codeUnitCompare a b \<le> 0 \<Longrightarrow> codeUnitCompare b c \<le> 0 \<Longrightarrow> codeUnitCompare a c \<le> 0"
proof (induction a arbitrary: b c)
  case Nil
  then show ?case by (cases c) simp_all
next
  case (Cons x xs)
  obtain y ys where b: "b = y # ys" using Cons.prems(1) by (cases b) simp_all
  obtain z zs where c: "c = z # zs" using Cons.prems(2) unfolding b by (cases c) simp_all
  have 1: "(of_char x :: nat) < of_char y \<or> ((of_char x :: nat) = of_char y \<and> codeUnitCompare xs ys \<le> 0)"
    using Cons.prems(1) unfolding b cuc_Cons_le .
  have 2: "(of_char y :: nat) < of_char z \<or> ((of_char y :: nat) = of_char z \<and> codeUnitCompare ys zs \<le> 0)"
    using Cons.prems(2) unfolding b c cuc_Cons_le .
  have "(of_char x :: nat) < of_char z \<or> ((of_char x :: nat) = of_char z \<and> codeUnitCompare xs zs \<le> 0)"
    using 1 2 Cons.IH [of ys zs] by auto
  then show ?case unfolding c cuc_Cons_le .
qed

lemma consistent_codeUnitCompare: "consistent codeUnitCompare"
  unfolding consistent_def using cuc_antisym cuc_trans by blast


lemma sorted_props:
  assumes "consistent collate"
    and "distinct (map fst propsTable)"
    and "list_all (\<lambda>k. \<not> is_array_index k) (map fst propsTable)"
  shows "sorted_wrt
           (\<lambda>a b. (truthy (pte_required (snd b)) \<longrightarrow> truthy (pte_required (snd a))) \<and>
                  (truthy (pte_required (snd a)) = truthy (pte_required (snd b)) \<longrightarrow>
                     collate (fst a) (fst b) \<le> 0))
           (entries (pageContent_props collate propsTable)) \<and>
         mset (entries (pageContent_props collate propsTable)) = mset propsTable"
proof -
  let ?sorted = "array_sort (compareProps collate) (entries propsTable)"
  have perm: "mset ?sorted = mset propsTable"
    by (simp add: mset_array_sort entries_def)
  then have "mset (map fst ?sorted) = mset (map fst propsTable)"
    by (metis mset_map)
  then have "distinct (map fst ?sorted)" and "set (map fst ?sorted) = set (map fst propsTable)"
    using assms(2) by (metis mset_eq_imp_distinct_iff, metis mset_eq_setD)
  then have same: "pageContent_props collate propsTable = ?sorted"
    unfolding pageContent_props_def using assms(3)
    by (intro fromPairs_plain_keys) (simp_all add: list_all_iff)
  have "sorted_wrt (\<lambda>a b. compareProps collate a b \<le> 0) ?sorted"
    using assms(1) by (intro sorted_array_sort consistent_compareProps)
  then have "sorted_wrt
           (\<lambda>a b. (truthy (pte_required (snd b)) \<longrightarrow> truthy (pte_required (snd a))) \<and>
                  (truthy (pte_required (snd a)) = truthy (pte_required (snd b)) \<longrightarrow>
                     collate (fst a) (fst b) \<le> 0)) ?sorted"
    by (rule sorted_wrt_mono_rel [rotated]) (auto simp: compareProps_le split: if_splits)
  then show ?thesis using same perm by (simp add: entries_def)
qed

text \<open>
  A key that is an array index is enumerated before the others, wherever the sort put it;
  the names of props are not of this kind.
\<close>

lemma fromPairs_index_key_first:
  "fromPairs [(''size'', x), (''0'', y)] = [(''0'', y), (''size'', x)]"
  by (simp add: fromPairs_def obj_set_def is_array_index_def is_digit_def digits_value_def)

text \<open>
  C1. The props of the page content are sorted: every entry with \<open>required = true\<close>
  precedes every entry without it, and within each of the two groups the entries are in
  the order of \<open>localeCompare\<close> on the prop names. The result holds exactly the
  entries of the props table, and is a function of the table (the same table gives the
  same order). \<open>localeCompare\<close> is a consistent comparison; the prop names are the keys
  of an object (distinct), and none is an array index.
\<close>

theorem props_sorted_required_then_name:
  assumes "consistent (localeCompare c)"
    and "distinct (map fst (api_propsTable reactApi))"
    and "list_all (\<lambda>k. \<not> is_array_index k) (map fst (api_propsTable reactApi))"
  shows "sorted_wrt
           (\<lambda>a b. (truthy (pte_required (snd b)) \<longrightarrow> truthy (pte_required (snd a))) \<and>
                  (truthy (pte_required (snd a)) = truthy (pte_required (snd b)) \<longrightarrow>
                     localeCompare c (fst a) (fst b) \<le> 0))
           (entries (pc_props (pageContent_of c reactApi))) \<and>
         mset (entries (pc_props (pageContent_of c reactApi))) = mset (api_propsTable reactApi)"
  using sorted_props [OF assms] by (simp add: pageContent_of_def)

theorem props_sorted_witness:
  "map fst (entries (pc_props (pageContent_of example_collaborators
     ((example_api ''Foo'' [])
        \<lparr>api_propsTable :=
           [(''variant'', entry_with_required None), (''children'', entry_with_required (Some True)),
            (''color'', entry_with_required None), (''action'', entry_with_required (Some True))]\<rparr>))))
     = [''action'', ''children'', ''color'', ''variant''] \<and>
   sorted_wrt
     (\<lambda>a b. (truthy (pte_required (snd b)) \<longrightarrow> truthy (pte_required (snd a))) \<and>
            (truthy (pte_required (snd a)) = truthy (pte_required (snd b)) \<longrightarrow>
               localeCompare example_collaborators (fst a) (fst b) \<le> 0))
     (entries (pc_props (pageContent_of example_collaborators
     ((example_api ''Foo'' [])
        \<lparr>api_propsTable :=
           [(''variant'', entry_with_required None), (''children'', entry_with_required (Some True)),
            (''color'', entry_with_required None), (''action'', entry_with_required (Some True))]\<rparr>))))"
proof -
  let ?T = "[(''variant'', entry_with_required None), (''children'', entry_with_required (Some True)),
      (''color'', entry_with_required None), (''action'', entry_with_required (Some True))]"
  let ?api = "(example_api ''Foo'' [])\<lparr>api_propsTable := ?T\<rparr>"
  have lc: "localeCompare example_collaborators = codeUnitCompare"
    by (simp add: example_collaborators_def)
  have c: "consistent (localeCompare example_collaborators)"
    unfolding lc by (rule consistent_codeUnitCompare)
  have d: "distinct (map fst (api_propsTable ?api))" by simp
  have n: "list_all (\<lambda>k. \<not> is_array_index k) (map fst (api_propsTable ?api))"
    by (simp add: is_array_index_def is_digit_def)
  have same: "pc_props (pageContent_of example_collaborators ?api) =
      array_sort (compareProps codeUnitCompare) ?T"
    unfolding pageContent_of_def pageContent_props_def entries_def lc
    by (simp add: compareProps_def entry_with_required_def fromPairs_def obj_set_def
        is_array_index_def is_digit_def)
  have "map fst (entries (pc_props (pageContent_of example_collaborators ?api))) =
      [''action'', ''children'', ''color'', ''variant'']"
    unfolding same entries_def by (simp add: compareProps_def entry_with_required_def)
  then show ?thesis
    using props_sorted_required_then_name [OF c d n] by simp
qed

subsection \<open>The props table\<close>

lemma startsWith_iff: "startsWith s p = (\<exists>b. s = p @ b)"
  unfolding startsWith_def
  by (metis append_eq_conv_conj append_take_drop_id)

lemma str_includes_iff: "str_includes s p = (\<exists>a b. s = a @ p @ b)"
proof (induction s)
  case Nil
  then show ?case by auto
next
  case (Cons c s)
  show ?case
  proof
    assume "str_includes (c # s) p"
    then consider "startsWith (c # s) p" | "str_includes s p" by auto
    then show "\<exists>a b. c # s = a @ p @ b"
    proof cases
      case 1
      then obtain b where "c # s = p @ b" unfolding startsWith_iff by blast
      then have "c # s = [] @ p @ b" by simp
      then show ?thesis by blast
    next
      case 2
      then obtain a b where "s = a @ p @ b" using Cons.IH by blast
      then have "c # s = (c # a) @ p @ b" by simp
      then show ?thesis by blast
    qed
  next
    assume "\<exists>a b. c # s = a @ p @ b"
    then obtain a b where ab: "c # s = a @ p @ b" by blast
    show "str_includes (c # s) p"
    proof (cases a)
      case Nil
      then have "startsWith (c # s) p" using ab unfolding startsWith_iff by auto
      then show ?thesis by simp
    next
      case (Cons a0 as)
      then have "s = as @ p @ b" using ab by simp
      then have "str_includes s p" using Cons.IH by blast
      then show ?thesis by simp
    qed
  qed
qed

lemma array_join_member: "x \<in> set xs \<Longrightarrow> \<exists>a b. array_join sep xs = a @ x @ b"
proof (induction sep xs rule: array_join.induct)
  case (1 sep)
  then show ?case by simp
next
  case (2 sep y)
  then have "array_join sep [y] = [] @ x @ []" by simp
  then show ?case by blast
next
  case (3 sep y z zs)
  show ?case
  proof (cases "x = y")
    case True
    then have "array_join sep (y # z # zs) = [] @ x @ (sep @ array_join sep (z # zs))" by simp
    then show ?thesis by blast
  next
    case False
    then have "x \<in> set (z # zs)" using 3 by simp
    then obtain a b where "array_join sep (z # zs) = a @ x @ b" using 3 by blast
    then have "array_join sep (y # z # zs) = (y @ sep @ a) @ x @ b" by simp
    then show ?thesis by blast
  qed
qed

lemma propErrors_failing:
  "concat (map (\<lambda>r. case r of Inl pe \<Rightarrow> [pe] | Inr _ \<Rightarrow> []) (map (describeProp c api) ps)) =
   map (\<lambda>p. (''['' @ api_name api @ ''] `'' @ fst p @ ''`'',
              projl (createDescribeableProp c (snd p) (fst p))))
     (filter (\<lambda>p. isl (createDescribeableProp c (snd p) (fst p))) ps)"
  by (induction ps) (auto simp: describeProp_def split: sum.splits)

lemma described_pairs:
  "filter (\<lambda>p. isl (createDescribeableProp c (snd p) (fst p))) ps = [] \<Longrightarrow>
   concat (map (\<lambda>r. case r of Inl _ \<Rightarrow> [] | Inr pair \<Rightarrow> [pair]) (map (describeProp c api) ps)) =
   map (\<lambda>p. propsTablePair c api (fst p) (snd p) (projr (createDescribeableProp c (snd p) (fst p)))) ps"
  by (induction ps) (auto simp: describeProp_def split: sum.splits if_splits)

text \<open>
  With no failing prop the table attached holds, for every prop, the pair of the mapping
  function (but for a prop named \<open>undefined\<close>, which the final \<open>delete\<close> removes).
\<close>

lemma attachPropsTable_table:
  assumes "failingProps c reactApi = []"
  shows "attachPropsTable c reactApi =
     (None,
      reactApi\<lparr>api_propsTable :=
        obj_delete ''undefined''
          (fromPairs
             (map (\<lambda>p. propsTablePair c reactApi (fst p) (snd p)
                          (projr (createDescribeableProp c (snd p) (fst p))))
                (entries (api_props reactApi))))\<rparr>)"
  using assms described_pairs [of c "entries (api_props reactApi)" reactApi]
  unfolding attachPropsTable_def Let_def propErrors_failing failingProps_def
  by simp

text \<open>
  C2. When \<open>createDescribeableProp\<close> throws for at least one prop, every prop is still
  processed and one aggregated error is thrown: its message has one line for every failing
  prop, in the order of the props, naming the prop together with the component; the record
  is left as it was (no props table is attached). With no failing prop nothing is thrown.
\<close>

theorem attachPropsTable_aggregates:
  "(failingProps c reactApi \<noteq> [] \<longrightarrow>
      attachPropsTable c reactApi =
        (Some (AggregatedPropError (JsError ''Error''
           (''There were errors creating prop descriptions:'' @ [LF] @
            array_join [LF]
              (map (\<lambda>p. ''  - ['' @ api_name reactApi @ ''] `'' @ fst p @ ''`: '' @
                         error_toString (projl (createDescribeableProp c (snd p) (fst p))))
                 (failingProps c reactApi))))),
         reactApi) \<and>
      (\<forall>p \<in> set (failingProps c reactApi).
         \<exists>m. fst (attachPropsTable c reactApi) = Some (AggregatedPropError (JsError ''Error'' m)) \<and>
             str_includes m (''['' @ api_name reactApi @ ''] `'' @ fst p @ ''`''))) \<and>
   (failingProps c reactApi = [] \<longrightarrow> fst (attachPropsTable c reactApi) = None)"
proof (intro conjI impI)
  let ?line = "\<lambda>p. ''  - ['' @ api_name reactApi @ ''] `'' @ fst p @ ''`: '' @
                         error_toString (projl (createDescribeableProp c (snd p) (fst p)))"
  let ?msg = "''There were errors creating prop descriptions:'' @ [LF] @
            array_join [LF] (map ?line (failingProps c reactApi))"
  assume ne: "failingProps c reactApi \<noteq> []"
  show eq: "attachPropsTable c reactApi =
        (Some (AggregatedPropError (JsError ''Error'' ?msg)), reactApi)"
    using ne unfolding attachPropsTable_def Let_def propErrors_failing failingProps_def
      propErrors_message_def
    by (simp add: comp_def)
  show "\<forall>p \<in> set (failingProps c reactApi).
         \<exists>m. fst (attachPropsTable c reactApi) = Some (AggregatedPropError (JsError ''Error'' m)) \<and>
             str_includes m (''['' @ api_name reactApi @ ''] `'' @ fst p @ ''`'')"
  proof
    fix p assume "p \<in> set (failingProps c reactApi)"
    then have "?line p \<in> set (map ?line (failingProps c reactApi))" by simp
    then obtain a b where "array_join [LF] (map ?line (failingProps c reactApi)) = a @ ?line p @ b"
      using array_join_member by blast
    then have "?msg = (''There were errors creating prop descriptions:'' @ [LF] @ a @ ''  - '') @
        (''['' @ api_name reactApi @ ''] `'' @ fst p @ ''`'') @
        ('': '' @ error_toString (projl (createDescribeableProp c (snd p) (fst p))) @ b)"
      by simp
    then have "str_includes ?msg (''['' @ api_name reactApi @ ''] `'' @ fst p @ ''`'')"
      unfolding str_includes_iff by blast
    then show "\<exists>m. fst (attachPropsTable c reactApi) = Some (AggregatedPropError (JsError ''Error'' m)) \<and>
             str_includes m (''['' @ api_name reactApi @ ''] `'' @ fst p @ ''`'')"
      unfolding eq by simp
  qed
next
  assume "failingProps c reactApi = []"
  then show "fst (attachPropsTable c reactApi) = None"
    unfolding attachPropsTable_def Let_def propErrors_failing failingProps_def
    by simp
qed


theorem attachPropsTable_aggregates_witness:
  "attachPropsTable example_collaborators
     (example_api ''Foo''
        [(''a'', example_prop ''string'' None), (''b'', example_prop ''unknown'' None),
         (''c'', example_prop ''unknown'' None)]) =
     (Some (AggregatedPropError (JsError ''Error''
        (''There were errors creating prop descriptions:'' @ [LF] @
         ''  - [Foo] `b`: Error: unsupported prop type'' @ [LF] @
         ''  - [Foo] `c`: Error: unsupported prop type''))),
      example_api ''Foo''
        [(''a'', example_prop ''string'' None), (''b'', example_prop ''unknown'' None),
         (''c'', example_prop ''unknown'' None)]) \<and>
   fst (attachPropsTable example_collaborators
     (example_api ''Foo'' [(''a'', example_prop ''string'' None)])) = None"
  using attachPropsTable_aggregates [of example_collaborators "example_api ''Foo''
        [(''a'', example_prop ''string'' None), (''b'', example_prop ''unknown'' None),
         (''c'', example_prop ''unknown'' None)]"]
    attachPropsTable_aggregates [of example_collaborators
      "example_api ''Foo'' [(''a'', example_prop ''string'' None)]"]
  by (simp add: failingProps_def example_collaborators_def example_api_def example_prop_def
      entries_def)

lemma propsTablePair_required:
  "pte_required (snd (propsTablePair c reactApi propName propDescriptor prop)) =
     (if requiredProp prop (getChained c (dp_type prop)) then Some True else None)"
  by (simp add: propsTablePair_def Let_def)

text \<open>
  C4, as amended. The required flag of the props table is \<open>true\<close> exactly when (1) the
  normalized descriptor's flag is set, or (2) the raw type signature contains the text
  \<open>.isRequired\<close> anywhere, or (3) the chained type marked it required; otherwise the
  field is left out. So a descriptor whose chained type is marked required has the flag.
\<close>

theorem required_flag_rules:
  "pte_required (snd (propsTablePair c reactApi propName propDescriptor prop)) =
     (if dp_required prop \<or>
         (\<exists>a b. (case pt_raw (dp_type prop) of None \<Rightarrow> ''undefined'' | Some raw \<Rightarrow> raw) =
                  a @ ''.isRequired'' @ b) \<or>
         (\<exists>ch. getChained c (dp_type prop) = Some ch \<and> ch_required ch)
      then Some True else None) \<and>
   (\<forall>ch. getChained c (dp_type prop) = Some ch \<and> ch_required ch \<longrightarrow>
      pte_required (snd (propsTablePair c reactApi propName propDescriptor prop)) = Some True)"
proof -
  have "requiredProp prop (getChained c (dp_type prop)) =
     (dp_required prop \<or>
         (\<exists>a b. (case pt_raw (dp_type prop) of None \<Rightarrow> ''undefined'' | Some raw \<Rightarrow> raw) =
                  a @ ''.isRequired'' @ b) \<or>
         (\<exists>ch. getChained c (dp_type prop) = Some ch \<and> ch_required ch))"
    unfolding requiredProp_def test_isRequired_def str_includes_iff
    by (cases "getChained c (dp_type prop)") simp_all
  then show ?thesis unfolding propsTablePair_required by auto
qed

theorem required_flag_rules_witness:
  "pte_required (snd (propsTablePair example_collaborators (example_api ''Foo'' [])
      ''count'' (example_prop ''custom'' (Some ''chainPropTypes(PropTypes.number, validator)''))
      \<lparr>dp_required = False,
       dp_type = \<lparr>pt_name = ''custom'',
                  pt_raw = Some ''chainPropTypes(PropTypes.number, validator)''\<rparr>,
       dp_defaultValue = None\<rparr>)) = Some True"
  using required_flag_rules [of example_collaborators "example_api ''Foo'' []" "''count''"
      "example_prop ''custom'' (Some ''chainPropTypes(PropTypes.number, validator)'')"
      "\<lparr>dp_required = False,
       dp_type = \<lparr>pt_name = ''custom'',
                  pt_raw = Some ''chainPropTypes(PropTypes.number, validator)''\<rparr>,
       dp_defaultValue = None\<rparr>"]
  by (simp add: example_collaborators_def startsWith_def)

text \<open>
  C4 as stated fails: the raw signature below holds \<open>.isRequired\<close> but does not end in
  it, nothing else marks the prop required, and the flag is \<open>true\<close>.
\<close>

theorem required_flag_counterexample:
  "pte_required (snd (propsTablePair example_collaborators (example_api ''Foo'' [])
      ''dense'' (example_prop ''custom'' (Some ''deprecatedPropType(PropTypes.bool.isRequired, message)''))
      \<lparr>dp_required = False,
       dp_type = \<lparr>pt_name = ''custom'',
                  pt_raw = Some ''deprecatedPropType(PropTypes.bool.isRequired, message)''\<rparr>,
       dp_defaultValue = None\<rparr>)) = Some True \<and>
   \<not> spec_required_rules
      \<lparr>dp_required = False,
       dp_type = \<lparr>pt_name = ''custom'',
                  pt_raw = Some ''deprecatedPropType(PropTypes.bool.isRequired, message)''\<rparr>,
       dp_defaultValue = None\<rparr>
      (getChained example_collaborators
         \<lparr>pt_name = ''custom'',
          pt_raw = Some ''deprecatedPropType(PropTypes.bool.isRequired, message)''\<rparr>)"
  by (simp add: propsTablePair_required requiredProp_def test_isRequired_def
      spec_required_rules_def example_collaborators_def startsWith_def endsWith_def)

text \<open>
  C6. The \<open>type.description\<close> of a props table entry is left out exactly when the
  rendered type description is the same text as the raw type name; otherwise it is the
  rendered description. (A renderer that returns \<open>undefined\<close> gives no description.)
\<close>

theorem type_description_omitted_iff_same:
  "pte_type_description (snd (propsTablePair c reactApi propName propDescriptor prop)) =
     (case generatePropTypeDescription c (pd_type propDescriptor) of
        None \<Rightarrow> None
      | Some rendered \<Rightarrow>
          if rendered = pt_name (pd_type propDescriptor) then None else Some rendered)"
  by (simp add: propsTablePair_def Let_def split: option.splits)

theorem type_description_omitted_witness:
  "pte_type_description (snd (propsTablePair example_collaborators (example_api ''Foo'' [])
      ''open'' (example_prop ''bool'' None)
      \<lparr>dp_required = False, dp_type = \<lparr>pt_name = ''bool'', pt_raw = None\<rparr>,
       dp_defaultValue = None\<rparr>)) = None"
  using type_description_omitted_iff_same [of example_collaborators "example_api ''Foo'' []"
      "''open''" "example_prop ''bool'' None"
      "\<lparr>dp_required = False, dp_type = \<lparr>pt_name = ''bool'', pt_raw = None\<rparr>,
       dp_defaultValue = None\<rparr>"]
  by (simp add: example_collaborators_def example_prop_def)

subsection \<open>The class descriptions\<close>

















subsection \<open>The translation files\<close>

lemma seedTranslation_at:
  "seedTranslation c dir name data fs language p =
     (case fs p of
        Some existing \<Rightarrow> Some existing
      | None \<Rightarrow>
          if language \<noteq> ''en'' \<and> translationsPath c dir name language = p
          then Some (prettier_format c p data) else None)"
  by (auto simp: seedTranslation_def writePrettifiedFile_def split: option.splits)

lemma seed_all_at:
  "foldl (seedTranslation c dir name data) fs languages p =
     (case fs p of
        Some existing \<Rightarrow> Some existing
      | None \<Rightarrow>
          if \<exists>language \<in> set languages. language \<noteq> ''en'' \<and> translationsPath c dir name language = p
          then Some (prettier_format c p data) else None)"
proof (induction languages arbitrary: fs)
  case Nil
  then show ?case by (simp split: option.splits)
next
  case (Cons language languages)
  let ?F = "seedTranslation c dir name data"
  have "foldl ?F fs (language # languages) p = foldl ?F (?F fs language) languages p"
    by simp
  also have "\<dots> =
     (case ?F fs language p of
        Some existing \<Rightarrow> Some existing
      | None \<Rightarrow>
          if \<exists>language \<in> set languages. language \<noteq> ''en'' \<and> translationsPath c dir name language = p
          then Some (prettier_format c p data) else None)"
    by (rule Cons.IH)
  also have "\<dots> =
     (case fs p of
        Some existing \<Rightarrow> Some existing
      | None \<Rightarrow>
          if \<exists>l \<in> set (language # languages). l \<noteq> ''en'' \<and> translationsPath c dir name l = p
          then Some (prettier_format c p data) else None)"
    by (auto simp: seedTranslation_at split: option.splits)
  finally show ?case .
qed

lemma translationsPath_not_en:
  "language \<noteq> ''en'' \<Longrightarrow> translationsPath c dir name language \<noteq> translationsPath c dir name ''en''"
  by (simp add: translationsPath_def path_join_def)

text \<open>
  C8. For every list of languages the call succeeds; the \<open>en\<close> bundle is written,
  whatever the file held before; and for every other language of the list the file
  keeps its content when it existed before the call, and holds the bundle when it did not.
\<close>

theorem translations_en_always_others_seeded:
  "\<exists>fs'. generateApiTranslations c outputDirectory reactApi languages fs = Inr fs' \<and>
     fs' (translationsPath c outputDirectory (api_name reactApi) ''en'') =
       Some (prettier_format c (translationsPath c outputDirectory (api_name reactApi) ''en'')
               (json_translations c (api_translations reactApi))) \<and>
     (\<forall>language \<in> set languages. language \<noteq> ''en'' \<longrightarrow>
        fs' (translationsPath c outputDirectory (api_name reactApi) language) =
          (case fs (translationsPath c outputDirectory (api_name reactApi) language) of
             Some existing \<Rightarrow> Some existing
           | None \<Rightarrow>
               Some (prettier_format c
                       (translationsPath c outputDirectory (api_name reactApi) language)
                       (json_translations c (api_translations reactApi)))))"
proof -
  let ?en = "translationsPath c outputDirectory (api_name reactApi) ''en''"
  let ?data = "json_translations c (api_translations reactApi)"
  let ?fs1 = "fs(?en \<mapsto> prettier_format c ?en ?data)"
  let ?fs' = "foldl (seedTranslation c outputDirectory (api_name reactApi) ?data) ?fs1 languages"
  have run: "generateApiTranslations c outputDirectory reactApi languages fs = Inr ?fs'"
    by (simp add: generateApiTranslations_def writePrettifiedFile_def Let_def)
  have en: "?fs' ?en = Some (prettier_format c ?en ?data)"
    by (subst seed_all_at) simp
  have others: "?fs' (translationsPath c outputDirectory (api_name reactApi) language) =
          (case fs (translationsPath c outputDirectory (api_name reactApi) language) of
             Some existing \<Rightarrow> Some existing
           | None \<Rightarrow>
               Some (prettier_format c
                       (translationsPath c outputDirectory (api_name reactApi) language) ?data))"
    if "language \<in> set languages" "language \<noteq> ''en''" for language
    using that translationsPath_not_en [OF that(2), of c outputDirectory "api_name reactApi"]
    by (subst seed_all_at) (auto split: option.splits)
  show ?thesis using run en others by blast
qed

theorem translations_witness:
  "\<exists>fs'. generateApiTranslations example_collaborators ''/out'' (example_api ''Foo'' [])
       [''en'', ''fr'', ''de'']
       [''/out/Foo/Foo.json'' \<mapsto> ''old'', ''/out/Foo/Foo-fr.json'' \<mapsto> ''manual''] = Inr fs' \<and>
     fs' ''/out/Foo/Foo.json'' = Some ''translations'' \<and>
     fs' ''/out/Foo/Foo-fr.json'' = Some ''manual'' \<and>
     fs' ''/out/Foo/Foo-de.json'' = Some ''translations''"
  using translations_en_always_others_seeded [of example_collaborators "''/out''"
      "example_api ''Foo'' []" "[''en'', ''fr'', ''de'']"
      "[''/out/Foo/Foo.json'' \<mapsto> ''old'', ''/out/Foo/Foo-fr.json'' \<mapsto> ''manual'']"]
  by (simp add: translationsPath_def path_join_def example_collaborators_def example_api_def)

subsection \<open>The build of a component\<close>

lemma traverse_failure:
  "traverse filename fileName ast pos = Inl error \<Longrightarrow> \<exists>e. error = MultipleJsdocBlocksError e"
proof (induction ast arbitrary: pos)
  case Nil
  then show ?case by simp
next
  case (Cons n ast)
  show ?case
  proof (cases "visit_export filename fileName n pos")
    case (Inl e)
    then have "\<exists>e'. e = MultipleJsdocBlocksError e'"
      by (auto simp: visit_export_def locate_jsdoc_def Let_def
          split: export_node.splits named_declaration.splits if_splits)
    then show ?thesis using Cons.prems Inl by simp
  next
    case (Inr pos')
    then show ?thesis using Cons by simp
  qed
qed

lemma annotate_failure:
  "annotateComponentDefinition c api fs = Inl error \<Longrightarrow> \<forall>e. error \<noteq> MissingDemoError e"
  by (auto simp: annotateComponentDefinition_def Let_def
      split: option.splits sum.splits if_splits prod.splits dest: traverse_failure)

lemma write_default_succeeds:
  "writePrettifiedFile c filename data FlagW fs = Inr (fs(filename \<mapsto> prettier_format c filename data))"
  by (simp add: writePrettifiedFile_def)

lemma emitArtifacts_failure:
  "emitArtifacts c componentInfo projectSettings reactApi fs = (Some error, fs') \<Longrightarrow>
   \<forall>e. error \<noteq> MissingDemoError e"
  by (auto simp: emitArtifacts_def generateApiTranslations_def generateApiPage_def Let_def
      write_default_succeeds split: sum.splits if_splits dest: annotate_failure)

lemma attachPropsTable_failure:
  "attachPropsTable c reactApi = (Some error, api') \<Longrightarrow> \<forall>e. error \<noteq> MissingDemoError e"
  by (auto simp: attachPropsTable_def Let_def split: if_splits)

lemma demosError_names:
  "str_includes (error_message (demosError name)) (''`components: '' @ name @ ''`'')"
proof -
  have "error_message (demosError name) =
     (''Unable to find demos. '' @ [LF] @ ''Be sure to include '') @ (''`components: '' @ name @ ''`'') @
     ('' in the markdown pages where the `'' @ name @ ''` component is relevant. '' @
      ''Every public component should have a demo. '')"
    by (simp add: demosError_def)
  then show ?thesis unfolding str_includes_iff by blast
qed

text \<open>
  C5. A component whose list of demos is empty leaves the files as they were; when it is
  not skipped and its source is parsed, the build fails with the error of the missing
  demos, whose message names the component. A component with a demo never fails with
  that error.
\<close>

theorem missing_demos_fail_first:
  "(ci_getDemos componentInfo = [] \<longrightarrow>
      snd (generateComponentApi c componentInfo project projectSettings fs) = fs \<and>
      (\<forall>parsed. \<not> rf_shouldSkip (ci_readFile componentInfo) \<and>
         fst (parseReactApi c componentInfo (rf_src (ci_readFile componentInfo))) = Inr parsed \<longrightarrow>
         fst (generateComponentApi c componentInfo project projectSettings fs) =
           Inl (MissingDemoError (demosError (ci_name componentInfo))) \<and>
         str_includes (error_message (demosError (ci_name componentInfo)))
           (''`components: '' @ ci_name componentInfo @ ''`''))) \<and>
   (ci_getDemos componentInfo \<noteq> [] \<longrightarrow>
      (\<forall>e. fst (generateComponentApi c componentInfo project projectSettings fs) \<noteq>
            Inl (MissingDemoError e)))"
proof (intro conjI impI allI)
  assume "ci_getDemos componentInfo = []"
  then show "snd (generateComponentApi c componentInfo project projectSettings fs) = fs"
    by (simp add: generateComponentApi_def describedComponent_def Let_def split: sum.splits)
next
  fix parsed
  assume "ci_getDemos componentInfo = []"
    and "\<not> rf_shouldSkip (ci_readFile componentInfo) \<and>
         fst (parseReactApi c componentInfo (rf_src (ci_readFile componentInfo))) = Inr parsed"
  then show "fst (generateComponentApi c componentInfo project projectSettings fs) =
           Inl (MissingDemoError (demosError (ci_name componentInfo)))"
    by (simp add: generateComponentApi_def describedComponent_def Let_def)
next
  show "str_includes (error_message (demosError (ci_name componentInfo)))
           (''`components: '' @ ci_name componentInfo @ ''`'')"
    by (rule demosError_names)
next
  fix e
  assume ne: "ci_getDemos componentInfo \<noteq> []"
  show "fst (generateComponentApi c componentInfo project projectSettings fs) \<noteq>
            Inl (MissingDemoError e)"
  proof
    assume "fst (generateComponentApi c componentInfo project projectSettings fs) =
            Inl (MissingDemoError e)"
    then show False
      using ne
      by (auto simp: generateComponentApi_def describedComponent_def Let_def
          split: sum.splits if_splits prod.splits option.splits
          dest: attachPropsTable_failure emitArtifacts_failure)
  qed
qed


theorem missing_demos_witness:
  "generateComponentApi example_collaborators (example_component False [] ''source'')
     (TypeScriptProject ''material'') \<lparr>translationLanguages = [''en'']\<rparr> Map.empty =
     (Inl (MissingDemoError (demosError ''Foo'')), Map.empty) \<and>
   (\<forall>e. fst (generateComponentApi example_collaborators
              (example_component False
                 [\<lparr>demoPageTitle = ''Foo'', demoPathname = ''/material-ui/react-foo/''\<rparr>] ''source'')
              (TypeScriptProject ''material'') \<lparr>translationLanguages = [''en'']\<rparr> Map.empty) \<noteq>
        Inl (MissingDemoError e))"
  using missing_demos_fail_first [of "example_component False [] ''source''" example_collaborators
      "TypeScriptProject ''material''" "\<lparr>translationLanguages = [''en'']\<rparr>" Map.empty]
    missing_demos_fail_first [of "example_component False
                 [\<lparr>demoPageTitle = ''Foo'', demoPathname = ''/material-ui/react-foo/''\<rparr>] ''source''"
      example_collaborators
      "TypeScriptProject ''material''" "\<lparr>translationLanguages = [''en'']\<rparr>" Map.empty]
  by (simp add: example_component_def parseReactApi_def example_collaborators_def prod_eq_iff)

lemma factoryFinder_fold_sound:
  assumes "foldl (\<lambda>node definition.
              case definition of
                None \<Rightarrow> node
              | Some d \<Rightarrow>
                  (let expression = (case expr_expression d of Some e \<Rightarrow> e | None \<Rightarrow> d)
                   in case expr_callee expression of
                        None \<Rightarrow> node
                      | Some definitionName \<Rightarrow>
                          if definitionName = Some target
                          then Some expression else node)) acc definitions = Some node"
    and "\<And>n. acc = Some n \<Longrightarrow> expr_callee n = Some (Some target)"
  shows "expr_callee node = Some (Some target)"
  using assms
proof (induction definitions arbitrary: acc)
  case Nil
  then show ?case by simp
next
  case (Cons d definitions)
  show ?case
  proof (rule Cons.IH [OF Cons.prems(1) [unfolded foldl_Cons]])
    fix n
    assume "(case d of
                None \<Rightarrow> acc
              | Some d \<Rightarrow>
                  (let expression = (case expr_expression d of Some e \<Rightarrow> e | None \<Rightarrow> d)
                   in case expr_callee expression of
                        None \<Rightarrow> acc
                      | Some definitionName \<Rightarrow>
                          if definitionName = Some target
                          then Some expression else acc)) = Some n"
    then show "expr_callee n = Some (Some target)"
      using Cons.prems(2) by (auto simp: Let_def split: option.splits if_splits)
  qed
qed

lemma factoryFinder_sound:
  "factoryFinder componentName ast = Some node \<Longrightarrow>
   expr_callee node = Some (Some (''create'' @ componentName))"
  unfolding factoryFinder_def by (erule factoryFinder_fold_sound) simp

lemma factoryFinder_fold_last:
  "foldl (\<lambda>node definition.
              case definition of
                None \<Rightarrow> node
              | Some d \<Rightarrow>
                  (let expression = (case expr_expression d of Some e \<Rightarrow> e | None \<Rightarrow> d)
                   in case expr_callee expression of
                        None \<Rightarrow> node
                      | Some definitionName \<Rightarrow>
                          if definitionName = Some target
                          then Some expression else node)) acc definitions =
   (case rev (filter (\<lambda>e. expr_callee e = Some (Some target))
                (concat (map (\<lambda>init. case init of
                                         None \<Rightarrow> []
                                       | Some d \<Rightarrow> [case expr_expression d of None \<Rightarrow> d | Some e \<Rightarrow> e])
                           definitions))) of
      [] \<Rightarrow> acc
    | call # _ \<Rightarrow> Some call)"
proof (induction definitions rule: rev_induct)
  case Nil
  then show ?case by simp
next
  case (snoc init definitions)
  show ?case
  proof (cases init)
    case None
    then show ?thesis using snoc by simp
  next
    case (Some d)
    then show ?thesis using snoc
      by (cases "expr_callee (case expr_expression d of None \<Rightarrow> d | Some e \<Rightarrow> e)")
         (auto simp: Let_def split: option.splits)
  qed
qed

lemma factoryFinder_last_call:
  "factoryFinder componentName ast =
   (case rev (filter (\<lambda>e. expr_callee e = Some (Some (''create'' @ componentName)))
                (concat (map (\<lambda>init. case init of
                                         None \<Rightarrow> []
                                       | Some d \<Rightarrow> [case expr_expression d of None \<Rightarrow> d | Some e \<Rightarrow> e])
                           (concat ast)))) of
      [] \<Rightarrow> None
    | call # _ \<Rightarrow> Some call)"
  unfolding factoryFinder_def by (rule factoryFinder_fold_last)

text \<open>
  C9. For a system component the parser is first called with the finder of the factory
  call \<open>create<ComponentName>\<close>: of the initializers of the declarators it visits
  (through a TypeScript wrapper, to the expression inside), the finder returns the last
  that is a call of exactly that name, and nothing when there is none. The default
  detection is called after it if and only if the first call throws an error whose
  message is \<open>No suitable component definition found.\<close>; any other error is the error
  of the build, unchanged. Other components use the default detection directly.
\<close>

theorem factory_lookup_then_default:
  "(ci_isSystemComponent componentInfo \<longrightarrow>
      (\<forall>reactApi.
          docgenParse c src (Some (factoryFinder (ci_name componentInfo))) [DefaultHandlers]
            (ci_filename componentInfo) = Inr reactApi \<longrightarrow>
          parseReactApi c componentInfo src = (Inr reactApi, [FactoryLookup])) \<and>
      (\<forall>error.
          docgenParse c src (Some (factoryFinder (ci_name componentInfo))) [DefaultHandlers]
            (ci_filename componentInfo) = Inl error \<longrightarrow>
          (error_message error = ''No suitable component definition found.'' \<longrightarrow>
             parseReactApi c componentInfo src =
               (docgenParse c src None [DefaultHandlers, MuiDefaultPropsHandler]
                  (ci_filename componentInfo),
                [FactoryLookup, DefaultDetection])) \<and>
          (error_message error \<noteq> ''No suitable component definition found.'' \<longrightarrow>
             parseReactApi c componentInfo src = (Inl error, [FactoryLookup]) \<and>
             (\<not> rf_shouldSkip (ci_readFile componentInfo) \<and>
              rf_src (ci_readFile componentInfo) = src \<longrightarrow>
                generateComponentApi c componentInfo project projectSettings fs =
                  (Inl (DocgenError error), fs))))) \<and>
   (\<not> ci_isSystemComponent componentInfo \<longrightarrow>
      parseReactApi c componentInfo src =
        (docgenParse c src None [DefaultHandlers, MuiDefaultPropsHandler]
           (ci_filename componentInfo),
         [DefaultDetection])) \<and>
   (snd (parseReactApi c componentInfo src) = [FactoryLookup, DefaultDetection]) =
     (ci_isSystemComponent componentInfo \<and>
      (\<exists>error.
          docgenParse c src (Some (factoryFinder (ci_name componentInfo))) [DefaultHandlers]
            (ci_filename componentInfo) = Inl error \<and>
          error_message error = ''No suitable component definition found.'')) \<and>
   (\<forall>ast node. factoryFinder (ci_name componentInfo) ast = Some node \<longrightarrow>
      expr_callee node = Some (Some (''create'' @ ci_name componentInfo))) \<and>
   (\<forall>ast. factoryFinder (ci_name componentInfo) ast =
      (case rev (filter (\<lambda>e. expr_callee e = Some (Some (''create'' @ ci_name componentInfo)))
                   (concat (map (\<lambda>init. case init of
                                            None \<Rightarrow> []
                                          | Some d \<Rightarrow>
                                              [case expr_expression d of None \<Rightarrow> d | Some e \<Rightarrow> e])
                              (concat ast)))) of
         [] \<Rightarrow> None
       | call # _ \<Rightarrow> Some call))"
proof (intro conjI impI allI)
  fix ast node
  assume "factoryFinder (ci_name componentInfo) ast = Some node"
  then show "expr_callee node = Some (Some (''create'' @ ci_name componentInfo))"
    by (rule factoryFinder_sound)
next
  fix ast
  show "factoryFinder (ci_name componentInfo) ast =
      (case rev (filter (\<lambda>e. expr_callee e = Some (Some (''create'' @ ci_name componentInfo)))
                   (concat (map (\<lambda>init. case init of
                                            None \<Rightarrow> []
                                          | Some d \<Rightarrow>
                                              [case expr_expression d of None \<Rightarrow> d | Some e \<Rightarrow> e])
                              (concat ast)))) of
         [] \<Rightarrow> None
       | call # _ \<Rightarrow> Some call)"
    by (rule factoryFinder_last_call)
next
  show "(snd (parseReactApi c componentInfo src) = [FactoryLookup, DefaultDetection]) =
     (ci_isSystemComponent componentInfo \<and>
      (\<exists>error.
          docgenParse c src (Some (factoryFinder (ci_name componentInfo))) [DefaultHandlers]
            (ci_filename componentInfo) = Inl error \<and>
          error_message error = ''No suitable component definition found.''))"
    by (auto simp: parseReactApi_def split: sum.splits)
qed (auto simp: parseReactApi_def generateComponentApi_def)

theorem factory_lookup_witness:
  "parseReactApi example_collaborators (example_component True [] ''source'') ''source'' =
     (Inr \<lparr>dg_description = ''source'', dg_props = []\<rparr>, [FactoryLookup, DefaultDetection]) \<and>
   generateComponentApi example_collaborators (example_component True [] ''syntax error'')
     (TypeScriptProject ''material'') \<lparr>translationLanguages = [''en'']\<rparr> Map.empty =
     (Inl (DocgenError (JsError ''SyntaxError'' ''Unexpected token'')), Map.empty) \<and>
   parseReactApi example_collaborators (example_component False [] ''source'') ''source'' =
     (Inr \<lparr>dg_description = ''source'', dg_props = []\<rparr>, [DefaultDetection]) \<and>
   parseReactApi example_collaborators
     (example_component True [] ''const Foo = createFoo(options);'')
     ''const Foo = createFoo(options);'' =
     (Inr \<lparr>dg_description = ''const Foo = createFoo(options);'', dg_props = []\<rparr>,
      [FactoryLookup]) \<and>
   factoryFinder ''Foo'' (example_tree ''const Foo = createFoo(options);'') =
     Some (AstExpr (Some (Some ''createFoo'')) None) \<and>
   factoryFinder ''Foo'' (example_tree ''source'') = None"
proof -
  have name: "ci_name (example_component system demos src) = ''Foo''" for system demos src
    by (simp add: example_component_def)
  have tree: "example_tree ''const Foo = createFoo(options);'' =
      [[None, Some (AstExpr (Some (Some ''styled'')) None)],
       [Some (AstExpr None (Some (AstExpr (Some (Some ''createFoo'')) None)))]]"
    by (simp add: example_tree_def startsWith_def)
  have plain: "example_tree ''source'' = [[Some (AstExpr (Some (Some ''styled'')) None)]]"
    by (simp add: example_tree_def startsWith_def)
  note finder = factory_lookup_then_default [of "example_component True [] ''source''",
      THEN conjunct2, THEN conjunct2, THEN conjunct2, THEN conjunct2, unfolded name]
  have found: "factoryFinder ''Foo'' (example_tree ''const Foo = createFoo(options);'') =
      Some (AstExpr (Some (Some ''createFoo'')) None)"
    unfolding tree by (simp add: finder)
  have missing: "factoryFinder ''Foo'' (example_tree ''source'') = None"
    unfolding plain by (simp add: finder)
  have parse_found: "docgenParse example_collaborators ''const Foo = createFoo(options);''
      (Some (factoryFinder ''Foo'')) [DefaultHandlers]
      (ci_filename (example_component True [] ''const Foo = createFoo(options);'')) =
      Inr \<lparr>dg_description = ''const Foo = createFoo(options);'', dg_props = []\<rparr>"
    by (simp add: example_collaborators_def found)
  have parse_missing: "docgenParse example_collaborators ''source''
      (Some (factoryFinder ''Foo'')) [DefaultHandlers]
      (ci_filename (example_component True [] ''source'')) =
      Inl (JsError ''Error'' ''No suitable component definition found.'')"
    by (simp add: example_collaborators_def missing)
  have parse_default: "docgenParse example_collaborators ''source'' None
      [DefaultHandlers, MuiDefaultPropsHandler] filename =
      Inr \<lparr>dg_description = ''source'', dg_props = []\<rparr>" for filename
    by (simp add: example_collaborators_def)
  have parse_error: "docgenParse example_collaborators ''syntax error''
      (Some (factoryFinder ''Foo'')) [DefaultHandlers]
      (ci_filename (example_component True [] ''syntax error'')) =
      Inl (JsError ''SyntaxError'' ''Unexpected token'')"
    by (simp add: example_collaborators_def)
  have system: "ci_isSystemComponent (example_component system demos src) = system"
    and read: "rf_shouldSkip (ci_readFile (example_component system demos src)) = False"
      "rf_src (ci_readFile (example_component system demos src)) = src"
    for system demos src
    by (simp_all add: example_component_def)
  have 1: "parseReactApi example_collaborators (example_component True [] ''source'') ''source'' =
     (Inr \<lparr>dg_description = ''source'', dg_props = []\<rparr>, [FactoryLookup, DefaultDetection])"
    using factory_lookup_then_default [of "example_component True [] ''source''"
        example_collaborators "''source''"] parse_missing
    by (simp add: name system parse_default)
  have 2: "generateComponentApi example_collaborators (example_component True [] ''syntax error'')
     (TypeScriptProject ''material'') \<lparr>translationLanguages = [''en'']\<rparr> Map.empty =
     (Inl (DocgenError (JsError ''SyntaxError'' ''Unexpected token'')), Map.empty)"
    using factory_lookup_then_default [of "example_component True [] ''syntax error''"
        example_collaborators "''syntax error''" "TypeScriptProject ''material''"
        "\<lparr>translationLanguages = [''en'']\<rparr>" Map.empty] parse_error
    by (simp add: name system read)
  have 3: "parseReactApi example_collaborators (example_component False [] ''source'') ''source'' =
     (Inr \<lparr>dg_description = ''source'', dg_props = []\<rparr>, [DefaultDetection])"
    using factory_lookup_then_default [of "example_component False [] ''source''"
        example_collaborators "''source''"]
    by (simp add: system parse_default)
  have 4: "parseReactApi example_collaborators
     (example_component True [] ''const Foo = createFoo(options);'')
     ''const Foo = createFoo(options);'' =
     (Inr \<lparr>dg_description = ''const Foo = createFoo(options);'', dg_props = []\<rparr>,
      [FactoryLookup])"
    using factory_lookup_then_default [of "example_component True [] ''const Foo = createFoo(options);''"
        example_collaborators "''const Foo = createFoo(options);''"] parse_found
    by (simp add: name system)
  show ?thesis using 1 2 3 4 found missing by simp
qed

subsection \<open>The annotation and the strip of its trailer\<close>

lemma dropWhile_hd: "xs \<noteq> [] \<Longrightarrow> \<not> P (hd xs) \<Longrightarrow> dropWhile P xs = xs"
  by (cases xs) simp_all

lemma dropWhile_rev_last: "xs \<noteq> [] \<Longrightarrow> \<not> P (last xs) \<Longrightarrow> dropWhile P (rev xs) = rev xs"
  by (rule dropWhile_hd) (simp_all add: hd_rev)

lemma trim_trimmed: "trimmed s \<Longrightarrow> trim s = s"
proof (cases "s = []")
  case True
  then show ?thesis by (simp add: trim_def)
next
  case False
  assume "trimmed s"
  then have h: "\<not> is_space (hd s)" and l: "\<not> is_space (last s)"
    using False by (auto simp: trimmed_def)
  show ?thesis
    unfolding trim_def dropWhile_hd [of s is_space, OF False h]
      dropWhile_rev_last [of s is_space, OF False l] by simp
qed

lemma trimmed_trim: "trimmed (trim s)"
proof (cases "dropWhile is_space s")
  case Nil
  show ?thesis unfolding trim_def Nil by (simp add: trimmed_def)
next
  case (Cons a u)
  then have a: "\<not> is_space a" by (metis hd_dropWhile list.sel(1) list.distinct(1))
  let ?v = "dropWhile is_space (rev (a # u))"
  have v: "?v = dropWhile is_space (rev u) @ [a]"
    using a by (simp add: dropWhile_append3)
  have ne: "?v \<noteq> []" unfolding v by simp
  have hd: "\<not> is_space (hd ?v)" using ne by (metis hd_dropWhile)
  have first: "hd (rev ?v) = a" unfolding v by simp
  have "last (rev ?v) = hd ?v" using ne by (simp add: last_rev)
  then show ?thesis unfolding trim_def Cons trimmed_def using a hd first by simp
qed

lemma trim_append_space:
  assumes "trimmed s" "s \<noteq> []" "\<forall>ch \<in> set ws. is_space ch"
  shows "trim (s @ ws) = s"
proof -
  have h: "\<not> is_space (hd s)" and l: "\<not> is_space (last s)" using assms by (auto simp: trimmed_def)
  have 1: "dropWhile is_space (s @ ws) = s @ ws"
    using h assms(2) by (intro dropWhile_hd) simp_all
  have "dropWhile is_space (rev ws @ rev s) = dropWhile is_space (rev s)"
    using assms(3) by (simp add: dropWhile_append)
  then have "dropWhile is_space (rev (s @ ws)) = rev s"
    using dropWhile_rev_last [of s is_space, OF assms(2) l] by simp
  then show ?thesis unfolding trim_def 1 by simp
qed

lemma trim_space_append:
  assumes "trimmed s" "\<forall>ch \<in> set ws. is_space ch"
  shows "trim (ws @ s) = s"
proof -
  have "dropWhile is_space (ws @ s) = dropWhile is_space s"
    using assms(2) by (simp add: dropWhile_append)
  then have "trim (ws @ s) = trim s" by (simp add: trim_def)
  then show ?thesis using trim_trimmed [OF assms(1)] by simp
qed

lemma array_join_split_lines: "array_join [LF] (split_lines s) = s"
proof (induction s)
  case Nil
  then show ?case by simp
next
  case (Cons ch s)
  show ?case
  proof (cases "split_lines s")
    case Nil
    then show ?thesis using Cons by simp
  next
    case outer: (Cons line lines)
    then show ?thesis using Cons by (cases lines) auto
  qed
qed

lemma split_lines_nonempty: "split_lines s \<noteq> []"
  by (induction s) (auto split: list.splits)

lemma last_split_lines: "s \<noteq> [] \<Longrightarrow> last s \<noteq> LF \<Longrightarrow> last (split_lines s) \<noteq> []"
proof (induction s)
  case Nil
  then show ?case by simp
next
  case (Cons ch s)
  show ?case
  proof (cases s)
    case Nil
    then show ?thesis using Cons.prems by simp
  next
    case inner: (Cons ch' s')
    then have "last (split_lines s) \<noteq> []" using Cons by simp
    then show ?thesis using split_lines_nonempty [of s]
      by (cases "split_lines s") (auto split: list.splits)
  qed
qed

lemma array_join_Cons: "xs \<noteq> [] \<Longrightarrow> array_join sep (x # xs) = x @ sep @ array_join sep xs"
  by (cases xs) simp_all

lemma array_join_append:
  "xs \<noteq> [] \<Longrightarrow> ys \<noteq> [] \<Longrightarrow> array_join sep (xs @ ys) = array_join sep xs @ sep @ array_join sep ys"
proof (induction sep xs rule: array_join.induct)
  case (1 sep)
  then show ?case by simp
next
  case (2 sep x)
  then show ?case by (simp add: array_join_Cons)
next
  case (3 sep x y zs)
  then show ?case by simp
qed

lemma last_array_join:
  "xs \<noteq> [] \<Longrightarrow> last xs \<noteq> [] \<Longrightarrow> array_join sep xs \<noteq> [] \<and> last (array_join sep xs) = last (last xs)"
  by (induction sep xs rule: array_join.induct) auto


lemma trailer_at_Nil: "\<not> trailer_at []"
  by (simp add: trailer_at_def startsWith_def)

lemma trailer_index_None: "trailer_index i s = None \<Longrightarrow> \<not> trailer_at (drop j s)"
proof (induction s arbitrary: i j)
  case Nil
  then show ?case by (simp add: trailer_at_Nil)
next
  case (Cons ch s)
  then show ?case by (cases j) (auto split: if_splits)
qed

lemma trailer_index_first:
  "trailer_at (drop k s) \<Longrightarrow> (\<forall>j<k. \<not> trailer_at (drop j s)) \<Longrightarrow> trailer_index i s = Some (i + k)"
proof (induction s arbitrary: i k)
  case Nil
  then show ?case by (simp add: trailer_at_Nil)
next
  case (Cons ch s)
  show ?case
  proof (cases k)
    case 0
    then show ?thesis using Cons.prems by simp
  next
    case (Suc k')
    have here: "\<not> trailer_at (ch # s)" using Cons.prems(2) Suc by force
    have "trailer_at (drop k' s)" using Cons.prems(1) Suc by simp
    moreover have "\<forall>j<k'. \<not> trailer_at (drop j s)"
    proof (intro allI impI)
      fix j assume "j < k'"
      then have "Suc j < k" using Suc by simp
      then have "\<not> trailer_at (drop (Suc j) (ch # s))" using Cons.prems(2) by blast
      then show "\<not> trailer_at (drop j s)" by simp
    qed
    ultimately have "trailer_index (Suc i) s = Some (Suc i + k')" by (rule Cons.IH)
    then show ?thesis using here Suc by simp
  qed
qed

lemma trailer_index_Some:
  "trailer_index i s = Some n \<Longrightarrow>
   \<exists>k. n = i + k \<and> trailer_at (drop k s) \<and> (\<forall>j<k. \<not> trailer_at (drop j s))"
proof (induction s arbitrary: i)
  case Nil
  then show ?case by simp
next
  case (Cons ch s)
  show ?case
  proof (cases "trailer_at (ch # s)")
    case True
    then have "n = i + 0 \<and> trailer_at (drop 0 (ch # s)) \<and> (\<forall>j<0. \<not> trailer_at (drop j (ch # s)))"
      using Cons.prems by simp
    then show ?thesis by blast
  next
    case False
    then have "trailer_index (Suc i) s = Some n" using Cons.prems by simp
    then obtain k where k: "n = Suc i + k" "trailer_at (drop k s)" "\<forall>j<k. \<not> trailer_at (drop j s)"
      using Cons.IH by blast
    have "\<forall>j<Suc k. \<not> trailer_at (drop j (ch # s))"
    proof (intro allI impI)
      fix j assume "j < Suc k"
      then show "\<not> trailer_at (drop j (ch # s))" using False k(3) by (cases j) auto
    qed
    then have "n = i + Suc k \<and> trailer_at (drop (Suc k) (ch # s)) \<and>
        (\<forall>j<Suc k. \<not> trailer_at (drop j (ch # s)))"
      using k by simp
    then show ?thesis by blast
  qed
qed

lemma startsWith_before_newline:
  assumes "LF \<notin> set m" and "startsWith (t @ LF # r) m"
  shows "length m \<le> length t \<and> startsWith t m"
proof (cases "length m \<le> length t")
  case True
  then show ?thesis using assms(2) by (simp add: startsWith_def)
next
  case False
  then have "take (length m) (t @ LF # r) = t @ LF # take (length m - length t - 1) r"
    by (simp add: take_Cons')
  then have "m = t @ LF # take (length m - length t - 1) r"
    using assms(2) by (simp add: startsWith_def)
  then have "LF \<in> set m" by (metis in_set_conv_decomp)
  then show ?thesis using assms(1) by simp
qed

lemma startsWith_append: "length m \<le> length t \<Longrightarrow> startsWith (t @ r) m = startsWith t m"
  by (simp add: startsWith_def)

lemma two_newlines_cut:
  assumes "y \<noteq> LF" "y \<noteq> CR" "two_newlines (t @ LF # LF # y # ys)"
  shows "two_newlines (t @ [LF, LF])"
proof -
  consider "t = []" | a where "t = [a]" | a b where "t = [a, b]" | a b c where "t = [a, b, c]"
    | a b c d r where "t = a # b # c # d # r"
    by (metis list.exhaust)
  then show ?thesis
    using assms
    by cases (auto simp: two_newlines_def eat_newline_def split: list.splits if_splits)
qed

lemma trailer_at_cut:
  assumes "y \<noteq> LF" "y \<noteq> CR" "trailer_at (t @ LF # LF # y # ys)"
  shows "trailer_at (t @ [LF, LF])"
proof -
  have marker: "startsWith (t @ [LF, LF]) m \<and> two_newlines (drop n (t @ [LF, LF]))"
    if m: "LF \<notin> set m" "length m = n" "startsWith (t @ LF # LF # y # ys) m"
      "two_newlines (drop n (t @ LF # LF # y # ys))"
    for m n
  proof -
    have len: "n \<le> length t" and st: "startsWith t m"
      using startsWith_before_newline [OF m(1) m(3)] m(2) by simp_all
    have "two_newlines (drop n t @ LF # LF # y # ys)" using m(4) len by simp
    then have "two_newlines (drop n t @ [LF, LF])"
      by (rule two_newlines_cut [OF assms(1) assms(2)])
    then have "two_newlines (drop n (t @ [LF, LF]))" using len by simp
    moreover have "startsWith (t @ [LF, LF]) m" using st len m(2) by (simp add: startsWith_append)
    ultimately show ?thesis by simp
  qed
  from assms(3) consider
      "startsWith (t @ LF # LF # y # ys) ''Demos:''" "two_newlines (drop 6 (t @ LF # LF # y # ys))"
    | "startsWith (t @ LF # LF # y # ys) ''API:''" "two_newlines (drop 4 (t @ LF # LF # y # ys))"
    unfolding trailer_at_def by blast
  then show ?thesis
  proof cases
    case 1
    have "startsWith (t @ [LF, LF]) ''Demos:'' \<and> two_newlines (drop 6 (t @ [LF, LF]))"
      by (rule marker [OF _ _ 1]) simp_all
    then show ?thesis unfolding trailer_at_def by blast
  next
    case 2
    have "startsWith (t @ [LF, LF]) ''API:'' \<and> two_newlines (drop 4 (t @ [LF, LF]))"
      by (rule marker [OF _ _ 2]) simp_all
    then show ?thesis unfolding trailer_at_def by blast
  qed
qed


lemma trailer_at_Demos: "trailer_at (''Demos:'' @ [LF, LF] @ R)"
  by (simp add: trailer_at_def startsWith_def two_newlines_def eat_newline_def)

lemma is_space_LF: "is_space LF"
  by (simp add: is_space_def)

lemma markdownLines_joined:
  assumes "cd = computeApiDescription c (api_description api) HOST"
  shows "\<exists>R. R \<noteq> [] \<and> last R = CHR '')'' \<and>
     array_join [LF] (markdownLines c api) =
       (if cd = [] then [LF] else cd @ [LF, LF]) @ ''Demos:'' @ [LF, LF] @ R"
proof -
  let ?rest = "map (\<lambda>demo. ''- ['' @ demoPageTitle demo @ '']('' @ absolute_url (demoPathname demo) @ '')'')
           (api_demos api) @
         [[]] @
         [''API:'', [],
          ''- ['' @ api_name api @ '' API]('' @ absolute_url (api_apiPathname api) @ '')''] @
         (case api_inheritance api of
            None \<Rightarrow> []
          | Some inheritance \<Rightarrow>
              [''- inherits ['' @ inh_name inheritance @ '' API]('' @
               absolute_url (inh_apiPathname inheritance) @ '')''])"
  let ?T = "[''Demos:'', []] @ ?rest"
  let ?R = "array_join [LF] ?rest"
  have rest_ne: "?rest \<noteq> []" by simp
  have last_rest: "last ?rest \<noteq> [] \<and> last (last ?rest) = CHR '')''"
    by (cases "api_inheritance api") simp_all
  have R: "?R \<noteq> [] \<and> last ?R = CHR '')''"
    using last_array_join [OF rest_ne, of "[LF]"] last_rest by simp
  have T: "array_join [LF] ?T = ''Demos:'' @ [LF, LF] @ ?R"
    using rest_ne by (simp add: array_join_Cons)
  have trimmed_cd: "trimmed cd"
    unfolding assms computeApiDescription_def by (rule trimmed_trim)
  have lines: "markdownLines c api =
      (if last (split_lines cd) \<noteq> [] then split_lines cd @ [[]] else split_lines cd) @ ?T"
    unfolding markdownLines_def Let_def assms by simp
  show ?thesis
  proof (cases "cd = []")
    case True
    have "array_join [LF] (markdownLines c api) = array_join [LF] ([[]] @ ?T)"
      unfolding lines True by simp
    also have "\<dots> = [LF] @ array_join [LF] ?T"
      by (subst array_join_append) simp_all
    finally show ?thesis using R T True by auto
  next
    case False
    then have "\<not> is_space (last cd)" using trimmed_cd by (simp add: trimmed_def)
    then have "last cd \<noteq> LF" using is_space_LF by auto
    then have "last (split_lines cd) \<noteq> []" using False by (rule last_split_lines [rotated])
    then have "array_join [LF] (markdownLines c api) = array_join [LF] (split_lines cd @ ([[]] @ ?T))"
      unfolding lines by simp
    also have "\<dots> = array_join [LF] (split_lines cd) @ [LF] @ array_join [LF] ([[]] @ ?T)"
      by (rule array_join_append) (simp_all add: split_lines_nonempty)
    also have "array_join [LF] ([[]] @ ?T) = [LF] @ array_join [LF] ?T"
      by (subst array_join_append) simp_all
    finally show ?thesis using R T False by (auto simp: array_join_split_lines)
  qed
qed

lemma strip_annotated:
  assumes cd: "cd = computeApiDescription c (api_description api) HOST"
    and free: "trailer_index 0 (cd @ [LF, LF]) = None"
  shows "stripTrailer (annotated_description c api) = cd"
proof -
  obtain R where R: "R \<noteq> []" "last R = CHR '')''"
    and joined: "array_join [LF] (markdownLines c api) =
       (if cd = [] then [LF] else cd @ [LF, LF]) @ ''Demos:'' @ [LF, LF] @ R"
    using markdownLines_joined [OF cd] by blast
  have trimmed_cd: "trimmed cd"
    unfolding cd computeApiDescription_def by (rule trimmed_trim)
  have paren: "\<not> is_space (CHR '')'')" by (simp add: is_space_def)
  have body: "trimmed (''Demos:'' @ [LF, LF] @ R)"
    using R paren by (simp add: trimmed_def is_space_def)
  show ?thesis
  proof (cases "cd = []")
    case True
    have "annotated_description c api = trim ([LF] @ (''Demos:'' @ [LF, LF] @ R))"
      unfolding annotated_description_def joined using True by simp
    also have "\<dots> = ''Demos:'' @ [LF, LF] @ R"
      by (rule trim_space_append [OF body]) (simp add: is_space_LF)
    finally have "annotated_description c api = ''Demos:'' @ [LF, LF] @ R" .
    moreover have "trailer_index 0 (''Demos:'' @ [LF, LF] @ R) = Some (0 + 0)"
      using trailer_at_Demos [of R] by (intro trailer_index_first) simp_all
    ultimately show ?thesis using True by (simp add: stripTrailer_def trim_def)
  next
    case False
    let ?J = "cd @ [LF, LF] @ ''Demos:'' @ [LF, LF] @ R"
    have "trimmed ?J"
      using False trimmed_cd R paren by (simp add: trimmed_def)
    then have ann: "annotated_description c api = ?J"
      unfolding annotated_description_def joined using False by (simp add: trim_trimmed)
    have at: "trailer_at (drop (length cd + 2) ?J)"
      using trailer_at_Demos [of R] by simp
    have before: "\<forall>j<length cd + 2. \<not> trailer_at (drop j ?J)"
    proof (intro allI impI)
      fix j assume j: "j < length cd + 2"
      show "\<not> trailer_at (drop j ?J)"
      proof (cases "j \<le> length cd")
        case True
        have "\<not> trailer_at (drop j (cd @ [LF, LF]))" using free by (rule trailer_index_None)
        then have no: "\<not> trailer_at (drop j cd @ [LF, LF])" using True by simp
        have "drop j ?J = drop j cd @ LF # LF # CHR ''D'' # (''emos:'' @ [LF, LF] @ R)"
          using True by simp
        then show ?thesis using no trailer_at_cut [of "CHR ''D''" "drop j cd" "''emos:'' @ [LF, LF] @ R"]
          by auto
      next
        case False
        then have "j = length cd + 1" using j by simp
        then have "drop j ?J = LF # ''Demos:'' @ [LF, LF] @ R" by simp
        then show ?thesis by (simp add: trailer_at_def startsWith_def)
      qed
    qed
    have "trailer_index 0 ?J = Some (0 + (length cd + 2))"
      using at before by (rule trailer_index_first)
    then have "stripTrailer ?J = trim (take (length cd + 2) ?J)"
      by (simp add: stripTrailer_def)
    also have "take (length cd + 2) ?J = cd @ [LF, LF]" by simp
    also have "trim (cd @ [LF, LF]) = cd"
      by (rule trim_append_space [OF trimmed_cd False]) (simp add: is_space_LF)
    finally show ?thesis unfolding ann .
  qed
qed

text \<open>
  C7, as amended. Let the description of the component, as the annotation renders it, hold
  no trailer marker when a blank line follows it, and let the markdown processor leave
  its own output as it is. Then the strip of the description read back from the annotated
  comment gives the rendered description again, and the annotation regenerated from it
  has the same lines as the first. The strip cuts the description at the first match of
  the marker and trims what is left; without a match it changes nothing.
\<close>

theorem annotation_idempotent:
  assumes "trailer_index 0 (computeApiDescription c (api_description api) HOST @ [LF, LF]) = None"
    and "computeApiDescription c (computeApiDescription c (api_description api) HOST) HOST =
         computeApiDescription c (api_description api) HOST"
  shows "stripTrailer (annotated_description c api) =
           computeApiDescription c (api_description api) HOST \<and>
         markdownLines c (api\<lparr>api_description := stripTrailer (annotated_description c api)\<rparr>) =
           markdownLines c api \<and>
         (\<forall>d i. trailer_index 0 d = Some i \<longrightarrow>
            stripTrailer d = trim (take i d) \<and> trailer_at (drop i d) \<and>
            (\<forall>j<i. \<not> trailer_at (drop j d))) \<and>
         (\<forall>d. trailer_index 0 d = None \<longrightarrow> stripTrailer d = d)"
proof (intro conjI allI impI)
  show strip: "stripTrailer (annotated_description c api) =
           computeApiDescription c (api_description api) HOST"
    using assms(1) by (intro strip_annotated) simp_all
  show "markdownLines c (api\<lparr>api_description := stripTrailer (annotated_description c api)\<rparr>) =
           markdownLines c api"
    unfolding strip by (simp add: markdownLines_def assms(2))
next
  fix d i
  assume i: "trailer_index 0 d = Some i"
  then show "stripTrailer d = trim (take i d)" by (simp add: stripTrailer_def)
  from trailer_index_Some [OF i]
  show "trailer_at (drop i d)" and "\<And>j. j < i \<Longrightarrow> \<not> trailer_at (drop j d)" by auto
next
  fix d
  assume "trailer_index 0 d = None"
  then show "stripTrailer d = d" by (simp add: stripTrailer_def)
qed


theorem annotation_idempotent_witness:
  "stripTrailer (annotated_description example_collaborators
     ((example_api ''Foo'' [])
        \<lparr>api_description := ''A foo.'',
         api_demos := [\<lparr>demoPageTitle = ''Foo'', demoPathname = ''/material-ui/react-foo/''\<rparr>]\<rparr>)) =
     ''A foo.'' \<and>
   markdownLines example_collaborators
     ((example_api ''Foo'' [])
        \<lparr>api_description := ''A foo.'',
         api_demos := [\<lparr>demoPageTitle = ''Foo'', demoPathname = ''/material-ui/react-foo/''\<rparr>]\<rparr>
        \<lparr>api_description := stripTrailer (annotated_description example_collaborators
           ((example_api ''Foo'' [])
              \<lparr>api_description := ''A foo.'',
               api_demos := [\<lparr>demoPageTitle = ''Foo'',
                              demoPathname = ''/material-ui/react-foo/''\<rparr>]\<rparr>))\<rparr>) =
   markdownLines example_collaborators
     ((example_api ''Foo'' [])
        \<lparr>api_description := ''A foo.'',
         api_demos := [\<lparr>demoPageTitle = ''Foo'', demoPathname = ''/material-ui/react-foo/''\<rparr>]\<rparr>)"
proof -
  let ?api = "(example_api ''Foo'' [])
        \<lparr>api_description := ''A foo.'',
         api_demos := [\<lparr>demoPageTitle = ''Foo'', demoPathname = ''/material-ui/react-foo/''\<rparr>]\<rparr>"
  have cd: "computeApiDescription example_collaborators ''A foo.'' HOST = ''A foo.''"
    by (simp add: computeApiDescription_def example_collaborators_def trim_def is_space_def)
  have free: "trailer_index 0 (''A foo.'' @ [LF, LF]) = None"
    by (simp add: trailer_at_def startsWith_def)
  show ?thesis
    using annotation_idempotent [of example_collaborators ?api] cd free
    by (simp add: example_api_def)
qed

text \<open>
  C7 as stated fails, for a component with one demo and its API page: a description that
  ends in \<open>API:\<close> is cut at that word once the annotation has put a blank line after
  it, and the second annotation differs from the first.
\<close>

theorem annotation_idempotent_counterexample:
  "stripTrailer (annotated_description example_collaborators
     ((example_api ''Foo'' [])
        \<lparr>api_description := ''See the component API:'',
         api_demos := [\<lparr>demoPageTitle = ''Foo'', demoPathname = ''/material-ui/react-foo/''\<rparr>],
         api_apiPathname := ''/material-ui/api/foo/''\<rparr>)) =
     ''See the component'' \<and>
   markdownLines example_collaborators
     ((example_api ''Foo'' [])
        \<lparr>api_description := ''See the component'',
         api_demos := [\<lparr>demoPageTitle = ''Foo'', demoPathname = ''/material-ui/react-foo/''\<rparr>],
         api_apiPathname := ''/material-ui/api/foo/''\<rparr>) \<noteq>
   markdownLines example_collaborators
     ((example_api ''Foo'' [])
        \<lparr>api_description := ''See the component API:'',
         api_demos := [\<lparr>demoPageTitle = ''Foo'', demoPathname = ''/material-ui/react-foo/''\<rparr>],
         api_apiPathname := ''/material-ui/api/foo/''\<rparr>)"
  by code_simp

end
